theory Spec2Isabelle
  imports
    Complex_Main
    "HOL-Library.Char_ord"
    "HOL-Library.List_Lexorder"
    "HOL-Library.Product_Lexorder"
begin

section \<open>Configuration, logging and the process state\<close>

text \<open>
  The embedding follows \<^verbatim>\<open>src/app.py\<close>. Python floats are modelled as reals, Python
  strings as \<^typ>\<open>string\<close> (compared by code point, which is the order of
  \<^theory_text>\<open>Char_ord\<close> and \<^theory_text>\<open>List_Lexorder\<close>), dictionaries as maps and
  the module-wide globals as one record that every operation takes and returns.
\<close>

definition TOLERANCE :: real where
  "TOLERANCE = 6 / 10"

definition FRAME_RESIZE_SCALE :: real where
  "FRAME_RESIZE_SCALE = 1 / 4"

definition NUM_REGISTRATION_IMAGES :: nat where
  "NUM_REGISTRATION_IMAGES = 5"

text \<open>The levels of \<^verbatim>\<open>cyber_log\<close>; the console keeps the level of each message, not its text.\<close>

datatype level = INFO | WARNING | CRITICAL | SUCCESS

text \<open>The Python exceptions that the modelled code can meet.\<close>

datatype exn = JSONDecodeError | UnicodeDecodeError | OSError | UnpicklingError
  | IndexError | ValueError

text \<open>
  A backing file at the moment it is opened: absent, present but raising the given
  exception while it is opened or decoded, or present and decoding to a value.
\<close>

datatype 'a backing_file = Missing | Unreadable exn | Stored 'a

type_synonym encoding = "real list"

type_synonym details = "string \<rightharpoonup> string"

record appointment =
  appt_name :: string
  appt_date :: string
  appt_time :: string
  appt_reason :: string
  appt_doctor :: "string option"

record schedule =
  days :: "string list"
  start_time :: string
  end_time :: string

record doctor =
  specialization :: string
  doctor_schedule :: schedule
  contact :: string

record app_state =
  PATIENT_RECORDS :: "string \<rightharpoonup> details"
  APPOINTMENTS :: "appointment list"
  DOCTOR_RECORDS :: "string \<rightharpoonup> doctor"
  KNOWN_ENCODINGS :: "encoding list"
  KNOWN_NAMES :: "string list"
  PATIENT_DATA_FILE :: "(string \<rightharpoonup> details) backing_file"
  APPOINTMENTS_FILE :: "appointment list backing_file"
  DOCTOR_DATA_FILE :: "(string \<rightharpoonup> doctor) backing_file"
  ENCODINGS_FILE :: "(encoding list \<times> string list) backing_file"
  console :: "level list"

text \<open>
  The globals as the module initialises them (lines 40 to 44), beside the four backing
  files as the process finds them.
\<close>

definition module_globals ::
  "(string \<rightharpoonup> details) backing_file \<Rightarrow> appointment list backing_file \<Rightarrow> (string \<rightharpoonup> doctor) backing_file \<Rightarrow>
   (encoding list \<times> string list) backing_file \<Rightarrow> app_state" where
  "module_globals pf af df ef =
     \<lparr>PATIENT_RECORDS = Map.empty, APPOINTMENTS = [], DOCTOR_RECORDS = Map.empty,
      KNOWN_ENCODINGS = [], KNOWN_NAMES = [],
      PATIENT_DATA_FILE = pf, APPOINTMENTS_FILE = af, DOCTOR_DATA_FILE = df,
      ENCODINGS_FILE = ef, console = []\<rparr>"

definition cyber_log :: "level \<Rightarrow> app_state \<Rightarrow> app_state" where
  "cyber_log lvl st = st\<lparr>console := console st @ [lvl]\<rparr>"

section \<open>Loading and saving the stores\<close>

definition save_patient_records_to_file :: "app_state \<Rightarrow> app_state" where
  "save_patient_records_to_file st = st\<lparr>PATIENT_DATA_FILE := Stored (PATIENT_RECORDS st)\<rparr>"

text \<open>
  \<^verbatim>\<open>load_patient_records\<close>: only \<^verbatim>\<open>json.JSONDecodeError\<close> is caught; any other
  exception leaves the function.
\<close>

definition load_patient_records :: "app_state \<Rightarrow> exn + app_state" where
  "load_patient_records st =
     (case PATIENT_DATA_FILE st of
        Stored recs \<Rightarrow> Inr (cyber_log INFO (st\<lparr>PATIENT_RECORDS := recs\<rparr>))
      | Unreadable e \<Rightarrow>
          (if e = JSONDecodeError
           then Inr ((cyber_log CRITICAL st)\<lparr>PATIENT_RECORDS := Map.empty\<rparr>)
           else Inl e)
      | Missing \<Rightarrow>
          Inr (save_patient_records_to_file
                 ((cyber_log WARNING st)\<lparr>PATIENT_RECORDS := Map.empty\<rparr>)))"

definition save_patient_record :: "string \<Rightarrow> details \<Rightarrow> app_state \<Rightarrow> app_state" where
  "save_patient_record nm data st =
     cyber_log SUCCESS
       (save_patient_records_to_file
          (st\<lparr>PATIENT_RECORDS := (PATIENT_RECORDS st)(nm \<mapsto> data)\<rparr>))"

text \<open>The sort key \<^verbatim>\<open>lambda x: (x['date'], x['time'])\<close>.\<close>

definition appt_key :: "appointment \<Rightarrow> string \<times> string" where
  "appt_key x = (appt_date x, appt_time x)"

text \<open>
  \<^verbatim>\<open>list.sort(key=...)\<close> is a stable sort; \<^const>\<open>sort_key\<close> computes the stable sorted
  permutation.
\<close>

definition sort_appointments :: "appointment list \<Rightarrow> appointment list" where
  "sort_appointments xs = sort_key appt_key xs"

definition save_appointments :: "app_state \<Rightarrow> app_state" where
  "save_appointments st = st\<lparr>APPOINTMENTS_FILE := Stored (APPOINTMENTS st)\<rparr>"

definition load_appointments :: "app_state \<Rightarrow> exn + app_state" where
  "load_appointments st =
     (case APPOINTMENTS_FILE st of
        Stored appts \<Rightarrow> Inr (cyber_log INFO (st\<lparr>APPOINTMENTS := sort_appointments appts\<rparr>))
      | Unreadable e \<Rightarrow>
          (if e = JSONDecodeError
           then Inr ((cyber_log CRITICAL st)\<lparr>APPOINTMENTS := []\<rparr>)
           else Inl e)
      | Missing \<Rightarrow>
          Inr (save_appointments ((cyber_log WARNING st)\<lparr>APPOINTMENTS := []\<rparr>)))"

definition add_appointment :: "appointment \<Rightarrow> app_state \<Rightarrow> app_state" where
  "add_appointment data st =
     cyber_log SUCCESS
       (save_appointments
          (st\<lparr>APPOINTMENTS := sort_appointments (APPOINTMENTS st @ [data])\<rparr>))"

text \<open>
  \<^verbatim>\<open>load_known_faces\<close> returns the pair and catches every exception of the read.
\<close>

definition load_known_faces :: "app_state \<Rightarrow> (encoding list \<times> string list) \<times> app_state" where
  "load_known_faces st =
     (case ENCODINGS_FILE st of
        Stored data \<Rightarrow> ((fst data, snd data), cyber_log INFO st)
      | Unreadable e \<Rightarrow> (([], []), cyber_log CRITICAL (cyber_log INFO st))
      | Missing \<Rightarrow> (([], []), cyber_log WARNING st))"

definition save_encodings :: "encoding list \<Rightarrow> string list \<Rightarrow> app_state \<Rightarrow> app_state" where
  "save_encodings encodings names st =
     cyber_log SUCCESS (st\<lparr>ENCODINGS_FILE := Stored (encodings, names)\<rparr>)"

definition save_doctor_records :: "app_state \<Rightarrow> app_state" where
  "save_doctor_records st = st\<lparr>DOCTOR_DATA_FILE := Stored (DOCTOR_RECORDS st)\<rparr>"

definition load_doctor_records :: "app_state \<Rightarrow> exn + app_state" where
  "load_doctor_records st =
     (case DOCTOR_DATA_FILE st of
        Stored recs \<Rightarrow> Inr (cyber_log INFO (st\<lparr>DOCTOR_RECORDS := recs\<rparr>))
      | Unreadable e \<Rightarrow>
          (if e = JSONDecodeError
           then Inr ((cyber_log CRITICAL st)\<lparr>DOCTOR_RECORDS := Map.empty\<rparr>)
           else Inl e)
      | Missing \<Rightarrow>
          Inr (save_doctor_records ((cyber_log WARNING st)\<lparr>DOCTOR_RECORDS := Map.empty\<rparr>)))"

text \<open>
  The loading steps of the main block (lines 1155 to 1161), up to the call of the menu.
\<close>

definition main_block :: "app_state \<Rightarrow> exn + app_state" where
  "main_block st =
     (case load_patient_records st of
        Inl e \<Rightarrow> Inl e
      | Inr s1 \<Rightarrow>
          (case load_appointments s1 of
             Inl e \<Rightarrow> Inl e
           | Inr s2 \<Rightarrow>
               (case load_doctor_records s2 of
                  Inl e \<Rightarrow> Inl e
                | Inr s3 \<Rightarrow>
                    (case load_known_faces s3 of
                       ((encs, names), s4) \<Rightarrow>
                         let s5 = s4\<lparr>KNOWN_ENCODINGS := encs, KNOWN_NAMES := names\<rparr>
                         in Inr (if length (KNOWN_ENCODINGS s5) = 0
                                 then cyber_log WARNING s5 else s5)))))"

section \<open>Cancelling an appointment\<close>

text \<open>
  \<^verbatim>\<open>cancel_appointment\<close> (lines 531 to 564). The entry's text either parses as an integer
  or makes \<^verbatim>\<open>int\<close> raise ValueError (\<^const>\<open>None\<close>); \<open>confirm\<close> is the operator's
  answer to the confirmation dialog.
\<close>

datatype dialog = InvalidAppointmentId | NotANumber | CancelDeclined | CancelSuccess

definition cancel_appointment :: "int option \<Rightarrow> bool \<Rightarrow> app_state \<Rightarrow> app_state \<times> dialog" where
  "cancel_appointment entry confirm st =
     (case entry of
        None \<Rightarrow> (st, NotANumber)
      | Some appt_id \<Rightarrow>
          let appt_index = appt_id - 1 in
          if appt_index < 0 \<or> appt_index \<ge> int (length (APPOINTMENTS st))
          then (st, InvalidAppointmentId)
          else if confirm
          then (cyber_log SUCCESS
                  (save_appointments
                     (st\<lparr>APPOINTMENTS :=
                           take (nat appt_index) (APPOINTMENTS st) @
                           drop (Suc (nat appt_index)) (APPOINTMENTS st)\<rparr>)),
                CancelSuccess)
          else (st, CancelDeclined))"

text \<open>The operations that change the appointment collection, and a run of them.\<close>

datatype appointment_op = Book appointment | Cancel "int option" bool

fun apply_appointment_op :: "appointment_op \<Rightarrow> app_state \<Rightarrow> app_state" where
  "apply_appointment_op (Book data) st = add_appointment data st"
| "apply_appointment_op (Cancel entry confirm) st = fst (cancel_appointment entry confirm st)"

definition sorted_by_date_time :: "appointment list \<Rightarrow> bool" where
  "sorted_by_date_time xs = sorted (map appt_key xs)"

section \<open>Matching a face against the known encodings\<close>

text \<open>
  The distance between two embedding vectors belongs to the embedding library and is a
  parameter \<open>d\<close> here. \<^verbatim>\<open>face_distance\<close> lists the distance of every known encoding to
  the query, in storage order, and \<^verbatim>\<open>compare_faces\<close> compares each with the tolerance.
\<close>

type_synonym distance = "encoding \<Rightarrow> encoding \<Rightarrow> real"

definition face_distance :: "distance \<Rightarrow> encoding list \<Rightarrow> encoding \<Rightarrow> real list" where
  "face_distance d known face_to_compare = map (\<lambda>k. d k face_to_compare) known"

definition compare_faces :: "distance \<Rightarrow> encoding list \<Rightarrow> encoding \<Rightarrow> real \<Rightarrow> bool list" where
  "compare_faces d known face_to_compare tolerance =
     map (\<lambda>x. x \<le> tolerance) (face_distance d known face_to_compare)"

text \<open>
  \<^verbatim>\<open>np.argmin\<close>: the index of the first occurrence of the minimum; ValueError on an
  empty sequence. The scan keeps the best index so far and replaces it only by a
  strictly smaller element.
\<close>

fun argmin_scan :: "real list \<Rightarrow> nat \<Rightarrow> nat \<Rightarrow> real \<Rightarrow> nat" where
  "argmin_scan [] i best_i best = best_i"
| "argmin_scan (x # xs) i best_i best =
     (if x < best then argmin_scan xs (Suc i) i x else argmin_scan xs (Suc i) best_i best)"

definition np_argmin :: "real list \<Rightarrow> exn + nat" where
  "np_argmin xs = (case xs of [] \<Rightarrow> Inl ValueError | x # rest \<Rightarrow> Inr (argmin_scan rest 1 0 x))"

text \<open>
  The match of one face (lines 999 to 1005): the name stays \<^verbatim>\<open>"Unknown"\<close> unless some
  known encoding is within the tolerance; then it is the name stored at the index of
  the smallest distance. Indexing \<^verbatim>\<open>KNOWN_NAMES\<close> past its end raises IndexError.
\<close>

definition match_face :: "distance \<Rightarrow> app_state \<Rightarrow> encoding \<Rightarrow> real \<Rightarrow> exn + string" where
  "match_face d st face_encoding tolerance =
     (if KNOWN_ENCODINGS st \<noteq> [] then
        (let matches = compare_faces d (KNOWN_ENCODINGS st) face_encoding tolerance in
         if True \<in> set matches then
           (case np_argmin (face_distance d (KNOWN_ENCODINGS st) face_encoding) of
              Inl e \<Rightarrow> Inl e
            | Inr match_index \<Rightarrow>
                if match_index < length (KNOWN_NAMES st)
                then Inr (KNOWN_NAMES st ! match_index)
                else Inl IndexError)
         else Inr ''Unknown'')
      else Inr ''Unknown'')"

section \<open>Registering a new patient\<close>

text \<open>
  A detected face is its embedding vector and its box (top, right, bottom, left). A
  frame is abstracted to the faces the detector finds in it; the camera is the stream
  of results of successive \<^verbatim>\<open>cap.read()\<close> calls.
\<close>

record face =
  face_encoding :: encoding
  face_loc :: "int \<times> int \<times> int \<times> int"

datatype frame_read = NoFrame | Frame "face list"

type_synonym camera = "nat \<Rightarrow> frame_read"

record capture_state =
  reads :: nat
  i_var :: int
  new_encodings :: "encoding list"
  saved_images :: "int list"
  capture_console :: "level list"

text \<open>
  One pass of the body of \<^verbatim>\<open>for i in range(NUM_REGISTRATION_IMAGES)\<close> (lines 876 to
  911), entered with the value \<open>i\<close> that the range yields. The first read is only
  displayed, the second is processed. The assignment \<^verbatim>\<open>i -= 1\<close> changes the variable
  \<^verbatim>\<open>i\<close> only: the next pass rebinds it to the next value of the range.
\<close>

definition capture_attempt :: "camera \<Rightarrow> nat \<Rightarrow> capture_state \<Rightarrow> capture_state" where
  "capture_attempt cap i cs0 =
     (let cs = cs0\<lparr>i_var := int i, capture_console := capture_console cs0 @ [INFO]\<rparr> in
      case cap (reads cs) of
        NoFrame \<Rightarrow>
          cs\<lparr>reads := reads cs + 1, capture_console := capture_console cs @ [WARNING]\<rparr>
      | Frame shown \<Rightarrow>
          (case cap (reads cs + 1) of
             NoFrame \<Rightarrow> cs\<lparr>reads := reads cs + 2\<rparr>
           | Frame face_locations \<Rightarrow>
               (case face_locations of
                  [f] \<Rightarrow>
                    cs\<lparr>reads := reads cs + 2,
                       new_encodings := new_encodings cs @ [face_encoding f],
                       saved_images := saved_images cs @ [int i + 1],
                       capture_console := capture_console cs @ [SUCCESS]\<rparr>
                | _ \<Rightarrow>
                    cs\<lparr>reads := reads cs + 2, i_var := int i - 1,
                       capture_console := capture_console cs @ [WARNING]\<rparr>)))"

definition capture_loop :: "camera \<Rightarrow> capture_state" where
  "capture_loop cap =
     fold (capture_attempt cap) [0..<NUM_REGISTRATION_IMAGES]
       \<lparr>reads = 0, i_var = 0, new_encodings = [], saved_images = [], capture_console = []\<rparr>"

text \<open>
  \<^verbatim>\<open>np.mean(new_encodings, axis=0)\<close> for captures of one dimension (the embedding library
  yields vectors of one fixed length): component \<open>j\<close> of the result is the sum of the
  components \<open>j\<close> divided by the number of captures. The empty case is guarded by the
  caller.
\<close>

definition np_mean_axis0 :: "encoding list \<Rightarrow> encoding" where
  "np_mean_axis0 vs =
     (case vs of
        [] \<Rightarrow> []
      | v # _ \<Rightarrow> map (\<lambda>j. sum_list (map (\<lambda>u. u ! j) vs) / real (length vs)) [0..<length v])"

record patient_data =
  pd_name :: string
  pd_details :: details

datatype registration_result = RegistrationFailed | RegistrationComplete

definition register_new_user_process ::
  "camera \<Rightarrow> patient_data \<Rightarrow> app_state \<Rightarrow> app_state \<times> registration_result" where
  "register_new_user_process cap pd st =
     (let new_name = pd_name pd;
          cs = capture_loop cap;
          st1 = st\<lparr>console := console st @ capture_console cs\<rparr>
      in if new_encodings cs = [] then (st1, RegistrationFailed)
         else
           (let avg_encoding = np_mean_axis0 (new_encodings cs);
                st2 = st1\<lparr>KNOWN_ENCODINGS := KNOWN_ENCODINGS st1 @ [avg_encoding],
                          KNOWN_NAMES := KNOWN_NAMES st1 @ [new_name]\<rparr>;
                st3 = save_encodings (KNOWN_ENCODINGS st2) (KNOWN_NAMES st2) st2;
                st4 = save_patient_record new_name (pd_details pd) st3
            in (st4, RegistrationComplete)))"

section \<open>The recognition loop\<close>

text \<open>
  \<^verbatim>\<open>str.upper\<close> and \<^verbatim>\<open>str.lower\<close> on ASCII text: the letters a to z and A to Z are
  mapped, every other character is kept.
\<close>

definition upper_char :: "char \<Rightarrow> char" where
  "upper_char c =
     (case map_of (zip ''abcdefghijklmnopqrstuvwxyz'' ''ABCDEFGHIJKLMNOPQRSTUVWXYZ'') c of
        Some u \<Rightarrow> u | None \<Rightarrow> c)"

definition lower_char :: "char \<Rightarrow> char" where
  "lower_char c =
     (case map_of (zip ''ABCDEFGHIJKLMNOPQRSTUVWXYZ'' ''abcdefghijklmnopqrstuvwxyz'') c of
        Some l \<Rightarrow> l | None \<Rightarrow> c)"

definition upper :: "string \<Rightarrow> string" where
  "upper s = map upper_char s"

definition lower :: "string \<Rightarrow> string" where
  "lower s = map lower_char s"

text \<open>\<^verbatim>\<open>dict.get(key, default)\<close>.\<close>

definition get :: "details \<Rightarrow> string \<Rightarrow> string \<Rightarrow> string" where
  "get d k dflt = (case d k of Some v \<Rightarrow> v | None \<Rightarrow> dflt)"

datatype colour = NEON_CYAN | NEON_GREEN | CRITICAL_RED_BGR | YELLOW_TEXT | GRAY_TEXT
  | APPOINTMENT_COLOR

text \<open>
  What is drawn over one face (lines 1010 to 1017): the box (top, right, bottom, left),
  scaled back to the size of the frame, its colour and the label.
\<close>

record face_overlay =
  box :: "int \<times> int \<times> int \<times> int"
  box_colour :: colour
  label :: string

definition draw_face :: "string \<Rightarrow> int \<times> int \<times> int \<times> int \<Rightarrow> face_overlay" where
  "draw_face nm loc =
     (case loc of
        (t, r, b, l) \<Rightarrow>
          let s = \<lfloor>1 / FRAME_RESIZE_SCALE\<rfloor> in
          \<lparr>box = (t * s, r * s, b * s, l * s),
           box_colour = (if nm \<noteq> ''Unknown'' then NEON_GREEN else CRITICAL_RED_BGR),
           label = upper nm\<rparr>)"

text \<open>
  The loop over the faces of one frame (lines 995 to 1017). The pair carries
  \<^verbatim>\<open>patient_name_to_display\<close> and the overlays drawn so far; an exception of a match
  leaves the loop.
\<close>

fun recognise_faces ::
  "distance \<Rightarrow> app_state \<Rightarrow> face list \<Rightarrow> string \<times> face_overlay list \<Rightarrow>
   exn + (string \<times> face_overlay list)" where
  "recognise_faces d st [] acc = Inr acc"
| "recognise_faces d st (f # fs) (patient_name_to_display, drawn) =
     (case match_face d st (face_encoding f) TOLERANCE of
        Inl e \<Rightarrow> Inl e
      | Inr nm \<Rightarrow> recognise_faces d st fs (nm, drawn @ [draw_face nm (face_loc f)]))"

definition default_details :: details where
  "default_details =
     [''age'' \<mapsto> ''N/A'', ''gender'' \<mapsto> ''N/A'', ''allergies'' \<mapsto> ''Unknown'',
      ''history'' \<mapsto> ''No record found.'', ''last_visit'' \<mapsto> ''N/A'']"

text \<open>Lines 1021 to 1028.\<close>

definition current_details :: "app_state \<Rightarrow> string \<Rightarrow> details" where
  "current_details st patient_name_to_display =
     (if patient_name_to_display \<noteq> ''Unknown'' then
        (case PATIENT_RECORDS st patient_name_to_display of
           Some d \<Rightarrow> d
         | None \<Rightarrow> default_details)
      else default_details)"

text \<open>Lines 1031 to 1034.\<close>

definition current_appointments :: "app_state \<Rightarrow> string \<Rightarrow> appointment list" where
  "current_appointments st patient_name_to_display =
     filter (\<lambda>app. lower (appt_name app) = lower patient_name_to_display) (APPOINTMENTS st)"

text \<open>
  The triage panel (lines 1055 to 1123) as the texts and colours it is drawn from. The
  history note is kept as its text: its line breaks depend on the toolkit's font
  metrics. \<open>is_today\<close> stands for the comparison of an appointment's date with the
  clock (lines 1107 to 1111).
\<close>

record panel =
  status_text :: string
  status_colour :: colour
  field_lines :: "string list"
  alert_text :: string
  allergy_colour :: colour
  history_text :: string
  appointment_lines :: "(string \<times> colour) list"

definition appointment_line :: "(string \<Rightarrow> bool) \<Rightarrow> appointment \<Rightarrow> string \<times> colour" where
  "appointment_line is_today appt =
     (let today = is_today (appt_date appt);
          doctor_name = (case appt_doctor appt of Some dn \<Rightarrow> dn | None \<Rightarrow> ''UNASSIGNED'')
      in ((if today then ''TODAY '' else []) @ appt_time appt @ '' | Dr. '' @ doctor_name @
            '' | '' @ appt_reason appt,
          if today then APPOINTMENT_COLOR else GRAY_TEXT))"

definition build_panel :: "(string \<Rightarrow> bool) \<Rightarrow> app_state \<Rightarrow> string \<Rightarrow> panel" where
  "build_panel is_today st patient_name_to_display =
     (let nm = patient_name_to_display;
          details = current_details st nm;
          appts = current_appointments st nm;
          allergies = upper (get details ''allergies'' ''None'')
      in \<lparr>status_text = ''ID: '' @ upper nm,
          status_colour = (if nm \<noteq> ''Unknown'' then NEON_CYAN else CRITICAL_RED_BGR),
          field_lines =
            [''AGE: '' @ upper (get details ''age'' ''N/A''),
             ''GENDER: '' @ upper (get details ''gender'' ''N/A''),
             ''LAST VISIT: '' @
               upper (takeWhile (\<lambda>c. c \<noteq> CHR '' '') (get details ''last_visit'' ''N/A''))],
          alert_text = ''ALERT: '' @ allergies,
          allergy_colour =
            (if allergies \<notin> set [''NONE'', ''N/A''] \<and> nm \<noteq> ''Unknown''
             then CRITICAL_RED_BGR else NEON_GREEN),
          history_text = get details ''history'' ''NO DATA LOGGED.'',
          appointment_lines =
            (if appts \<noteq> [] then map (appointment_line is_today) appts
             else [(''NO APPOINTMENT FOUND.'', GRAY_TEXT)])\<rparr>)"

definition process_frame ::
  "distance \<Rightarrow> (string \<Rightarrow> bool) \<Rightarrow> app_state \<Rightarrow> face list \<Rightarrow> exn + (face_overlay list \<times> panel)" where
  "process_frame d is_today st faces =
     (case recognise_faces d st faces (''Unknown'', []) of
        Inl e \<Rightarrow> Inl e
      | Inr (patient_name_to_display, drawn) \<Rightarrow>
          Inr (drawn, build_panel is_today st patient_name_to_display))"

text \<open>
  What the loop does to the outside, in order. The capture device either opened or
  not; \<open>keys k\<close> is what \<^verbatim>\<open>cv2.waitKey(1)\<close> returns in pass \<open>k\<close>, and
  \<^verbatim>\<open>key & 0xFF\<close> is its remainder modulo 256 (113 is \<^verbatim>\<open>ord("q")\<close>).
\<close>

datatype event = VideoCapture | Console level | ShowError
  | Imshow "face_overlay list" panel | Release | DestroyAllWindows | MainMenu

record capture_device =
  isOpened :: bool
  frames :: camera

text \<open>
  The \<^verbatim>\<open>while True\<close> loop (lines 982 to 1138) with fuel: \<^const>\<open>None\<close> when the passes
  run out before the loop is left, \<open>Inr\<close> with the events so far when it is left by
  \<^verbatim>\<open>break\<close>, \<open>Inl\<close> when an exception leaves it.
\<close>

fun frame_loop ::
  "nat \<Rightarrow> distance \<Rightarrow> (string \<Rightarrow> bool) \<Rightarrow> app_state \<Rightarrow> camera \<Rightarrow> (nat \<Rightarrow> int) \<Rightarrow> nat \<Rightarrow>
   event list \<Rightarrow> (exn \<times> event list + event list) option" where
  "frame_loop 0 d is_today st cam keys k tr = None"
| "frame_loop (Suc fuel) d is_today st cam keys k tr =
     (case cam k of
        NoFrame \<Rightarrow> Some (Inr tr)
      | Frame faces \<Rightarrow>
          (case process_frame d is_today st faces of
             Inl e \<Rightarrow> Some (Inl (e, tr))
           | Inr (drawn, info_panel) \<Rightarrow>
               let tr' = tr @ [Imshow drawn info_panel] in
               if keys k mod 256 = 113 then Some (Inr tr')
               else frame_loop fuel d is_today st cam keys (Suc k) tr'))"

datatype outcome = Returned "event list" | Raised exn "event list"

definition face_recognition_loop ::
  "nat \<Rightarrow> distance \<Rightarrow> (string \<Rightarrow> bool) \<Rightarrow> app_state \<Rightarrow> capture_device \<Rightarrow> (nat \<Rightarrow> int) \<Rightarrow>
   outcome option" where
  "face_recognition_loop fuel d is_today st cap keys =
     (if \<not> isOpened cap then Some (Returned [VideoCapture, Console CRITICAL, ShowError])
      else
        (case frame_loop fuel d is_today st (frames cap) keys 0 [VideoCapture, Console INFO] of
           None \<Rightarrow> None
         | Some (Inl (e, tr)) \<Rightarrow> Some (Raised e tr)
         | Some (Inr tr) \<Rightarrow>
             Some (Returned (tr @ [Release, DestroyAllWindows, Console INFO, MainMenu]))))"

section \<open>Runs of the application\<close>

text \<open>
  The steps that touch the encodings: a start of the process (the globals at their
  module values, then the main block on the files as they are; when a loader raises,
  the process ends with the globals it had), and a registration.
\<close>

datatype session_step = Restart | Register camera patient_data

definition restart :: "app_state \<Rightarrow> app_state" where
  "restart st =
     (let st0 = module_globals (PATIENT_DATA_FILE st) (APPOINTMENTS_FILE st)
                  (DOCTOR_DATA_FILE st) (ENCODINGS_FILE st)
      in case main_block st0 of Inr st' \<Rightarrow> st' | Inl e \<Rightarrow> st0)"

fun run_step :: "session_step \<Rightarrow> app_state \<Rightarrow> app_state" where
  "run_step Restart st = restart st"
| "run_step (Register cap pd) st = fst (register_new_user_process cap pd st)"

text \<open>
  The known encodings and the known names are parallel, in memory and in the saved
  blob.
\<close>

definition parallel_stores :: "app_state \<Rightarrow> bool" where
  "parallel_stores st =
     (length (KNOWN_ENCODINGS st) = length (KNOWN_NAMES st) \<and>
      (case ENCODINGS_FILE st of
         Stored data \<Rightarrow> length (fst data) = length (snd data)
       | _ \<Rightarrow> True))"

section \<open>Properties of the appointment collection and of the loaders\<close>

lemma sorted_sort_appointments: "sorted_by_date_time (sort_appointments xs)"
  by (simp add: sorted_by_date_time_def sort_appointments_def)

lemma sorted_wrt_delete_nth:
  assumes "sorted_wrt P xs"
  shows "sorted_wrt P (take i xs @ drop (Suc i) xs)"
proof -
  have "sorted_wrt P (take i xs @ drop i xs)"
    using assms by simp
  then have parts: "sorted_wrt P (take i xs)" "sorted_wrt P (drop i xs)"
    and cross: "\<forall>x\<in>set (take i xs). \<forall>y\<in>set (drop i xs). P x y"
    unfolding sorted_wrt_append by blast+
  have "sorted_wrt P (drop (Suc i) xs)"
    using assms by (rule sorted_wrt_drop)
  moreover have "set (drop (Suc i) xs) \<subseteq> set (drop i xs)"
    by (metis drop_Suc set_drop_subset tl_drop  drop_drop plus_1_eq_Suc)
  ultimately show ?thesis
    using parts cross unfolding sorted_wrt_append by blast
qed

lemma sorted_by_date_time_delete:
  "sorted_by_date_time xs \<Longrightarrow> sorted_by_date_time (take i xs @ drop (Suc i) xs)"
  unfolding sorted_by_date_time_def sorted_map by (rule sorted_wrt_delete_nth)

lemma APPOINTMENTS_add [simp]:
  "APPOINTMENTS (add_appointment data st) = sort_appointments (APPOINTMENTS st @ [data])"
  by (simp add: add_appointment_def cyber_log_def save_appointments_def)

lemma apply_op_sorted:
  "sorted_by_date_time (APPOINTMENTS st) \<Longrightarrow>
   sorted_by_date_time (APPOINTMENTS (apply_appointment_op x st))"
proof (cases x)
  case (Book data)
  then show ?thesis by (simp add: sorted_sort_appointments)
next
  case (Cancel entry confirm)
  assume s: "sorted_by_date_time (APPOINTMENTS st)"
  show ?thesis
    using s sorted_by_date_time_delete [OF s] unfolding Cancel
    by (simp add: cancel_appointment_def cyber_log_def save_appointments_def Let_def
        split: option.splits)
qed

lemma fold_ops_sorted:
  "sorted_by_date_time (APPOINTMENTS st) \<Longrightarrow>
   sorted_by_date_time (APPOINTMENTS (fold apply_appointment_op ops st))"
  by (induction ops arbitrary: st) (simp_all add: apply_op_sorted)

lemma load_appointments_sorted:
  "load_appointments st = Inr st' \<Longrightarrow> sorted_by_date_time (APPOINTMENTS st')"
  using sorted_sort_appointments
  by (auto simp: load_appointments_def cyber_log_def save_appointments_def
      sorted_by_date_time_def split: backing_file.splits if_splits)

text \<open>
  C5. Starting from the loaded collection (or from any collection sorted by date and
  time), every run of bookings and cancellations by index leaves the appointment
  collection sorted by (date, time) ascending; since the run is arbitrary, this holds
  after each of its operations.
\<close>

theorem appointments_remain_sorted:
  assumes "load_appointments st0 = Inr st \<or> sorted_by_date_time (APPOINTMENTS st)"
  shows "sorted_by_date_time (APPOINTMENTS (fold apply_appointment_op ops st))"
  using assms load_appointments_sorted fold_ops_sorted by blast

theorem appointments_remain_sorted_witness:
  "map appt_date
     (APPOINTMENTS
        (fold apply_appointment_op
           [Book \<lparr>appt_name = ''alice'', appt_date = ''2025-03-01'', appt_time = ''09:00'',
                  appt_reason = ''checkup'', appt_doctor = Some ''who''\<rparr>,
            Book \<lparr>appt_name = ''alice'', appt_date = ''2025-02-01'', appt_time = ''10:00'',
                  appt_reason = ''checkup'', appt_doctor = Some ''who''\<rparr>]
           (module_globals Missing Missing Missing Missing)))
   = [''2025-02-01'', ''2025-03-01''] \<and>
   sorted_by_date_time
     (APPOINTMENTS
        (fold apply_appointment_op
           [Book \<lparr>appt_name = ''alice'', appt_date = ''2025-03-01'', appt_time = ''09:00'',
                  appt_reason = ''checkup'', appt_doctor = Some ''who''\<rparr>,
            Book \<lparr>appt_name = ''alice'', appt_date = ''2025-02-01'', appt_time = ''10:00'',
                  appt_reason = ''checkup'', appt_doctor = Some ''who''\<rparr>,
            Cancel (Some 1) True]
           (module_globals Missing Missing Missing Missing)))"
proof -
  have start: "sorted_by_date_time (APPOINTMENTS (module_globals Missing Missing Missing Missing))"
    by (simp add: module_globals_def sorted_by_date_time_def)
  have order: "map appt_date
     (APPOINTMENTS
        (fold apply_appointment_op
           [Book \<lparr>appt_name = ''alice'', appt_date = ''2025-03-01'', appt_time = ''09:00'',
                  appt_reason = ''checkup'', appt_doctor = Some ''who''\<rparr>,
            Book \<lparr>appt_name = ''alice'', appt_date = ''2025-02-01'', appt_time = ''10:00'',
                  appt_reason = ''checkup'', appt_doctor = Some ''who''\<rparr>]
           (module_globals Missing Missing Missing Missing)))
   = [''2025-02-01'', ''2025-03-01'']"
    by (simp add: module_globals_def add_appointment_def cyber_log_def save_appointments_def
        sort_appointments_def appt_key_def)
  show ?thesis
    using order appointments_remain_sorted [OF disjI2, OF start] by blast
qed

text \<open>
  C6. A confirmed cancellation with a displayed index \<open>i\<close> between 1 and the current
  length removes exactly the record at position \<open>i\<close> (the records before and after it
  stay, in their order) and saves the collection; for \<open>i \<le> 0\<close> or \<open>i\<close> greater than
  the length the request is rejected and the state is returned as it was.
\<close>

theorem cancel_by_displayed_index:
  "(1 \<le> i \<and> i \<le> int (length (APPOINTMENTS st)) \<longrightarrow>
      cancel_appointment (Some i) True st =
        (cyber_log SUCCESS (save_appointments
           (st\<lparr>APPOINTMENTS :=
                 take (nat i - 1) (APPOINTMENTS st) @ drop (nat i) (APPOINTMENTS st)\<rparr>)),
         CancelSuccess)) \<and>
   (i \<le> 0 \<or> int (length (APPOINTMENTS st)) < i \<longrightarrow>
      cancel_appointment (Some i) confirm st = (st, InvalidAppointmentId))"
proof -
  have "Suc (nat (i - 1)) = nat i" "nat (i - 1) = nat i - 1" if "1 \<le> i"
    using that by simp_all
  then show ?thesis
    by (auto simp: cancel_appointment_def Let_def)
qed


theorem cancel_by_displayed_index_witness:
  "APPOINTMENTS (fst (cancel_appointment (Some 1) True
      ((module_globals Missing Missing Missing Missing)
         \<lparr>APPOINTMENTS :=
            [\<lparr>appt_name = ''alice'', appt_date = ''2025-02-01'', appt_time = ''10:00'',
              appt_reason = ''checkup'', appt_doctor = Some ''who''\<rparr>,
             \<lparr>appt_name = ''bob'', appt_date = ''2025-03-01'', appt_time = ''09:00'',
              appt_reason = ''review'', appt_doctor = None\<rparr>]\<rparr>)))
   = [\<lparr>appt_name = ''bob'', appt_date = ''2025-03-01'', appt_time = ''09:00'',
       appt_reason = ''review'', appt_doctor = None\<rparr>] \<and>
   snd (cancel_appointment (Some 3) True
      ((module_globals Missing Missing Missing Missing)
         \<lparr>APPOINTMENTS :=
            [\<lparr>appt_name = ''alice'', appt_date = ''2025-02-01'', appt_time = ''10:00'',
              appt_reason = ''checkup'', appt_doctor = Some ''who''\<rparr>,
             \<lparr>appt_name = ''bob'', appt_date = ''2025-03-01'', appt_time = ''09:00'',
              appt_reason = ''review'', appt_doctor = None\<rparr>]\<rparr>))
   = InvalidAppointmentId"
  using
    cancel_by_displayed_index [of 1 "(module_globals Missing Missing Missing Missing)
         \<lparr>APPOINTMENTS :=
            [\<lparr>appt_name = ''alice'', appt_date = ''2025-02-01'', appt_time = ''10:00'',
              appt_reason = ''checkup'', appt_doctor = Some ''who''\<rparr>,
             \<lparr>appt_name = ''bob'', appt_date = ''2025-03-01'', appt_time = ''09:00'',
              appt_reason = ''review'', appt_doctor = None\<rparr>]\<rparr>" True]
    cancel_by_displayed_index [of 3 "(module_globals Missing Missing Missing Missing)
         \<lparr>APPOINTMENTS :=
            [\<lparr>appt_name = ''alice'', appt_date = ''2025-02-01'', appt_time = ''10:00'',
              appt_reason = ''checkup'', appt_doctor = Some ''who''\<rparr>,
             \<lparr>appt_name = ''bob'', appt_date = ''2025-03-01'', appt_time = ''09:00'',
              appt_reason = ''review'', appt_doctor = None\<rparr>]\<rparr>" True]
  by (simp add: module_globals_def cyber_log_def save_appointments_def)

text \<open>
  A syntax error in a backing file: when the JSON decoder raises its decode error (and
  when the pickle read raises anything), the loader returns normally with the empty
  collection and a CRITICAL message on the console, for the patient records, the
  appointments, the doctors and the encodings. With all four files in that state the
  main block still loads and holds four empty stores.
\<close>

theorem corrupt_store_degrades_to_empty:
  "(PATIENT_DATA_FILE st = Unreadable JSONDecodeError \<longrightarrow>
      load_patient_records st =
        Inr (st\<lparr>PATIENT_RECORDS := Map.empty, console := console st @ [CRITICAL]\<rparr>)) \<and>
   (APPOINTMENTS_FILE st = Unreadable JSONDecodeError \<longrightarrow>
      load_appointments st =
        Inr (st\<lparr>APPOINTMENTS := [], console := console st @ [CRITICAL]\<rparr>)) \<and>
   (DOCTOR_DATA_FILE st = Unreadable JSONDecodeError \<longrightarrow>
      load_doctor_records st =
        Inr (st\<lparr>DOCTOR_RECORDS := Map.empty, console := console st @ [CRITICAL]\<rparr>)) \<and>
   (ENCODINGS_FILE st = Unreadable e \<longrightarrow>
      load_known_faces st = (([], []), st\<lparr>console := console st @ [INFO, CRITICAL]\<rparr>)) \<and>
   (PATIENT_DATA_FILE st = Unreadable JSONDecodeError \<and>
    APPOINTMENTS_FILE st = Unreadable JSONDecodeError \<and>
    DOCTOR_DATA_FILE st = Unreadable JSONDecodeError \<and>
    ENCODINGS_FILE st = Unreadable e \<longrightarrow>
      main_block st =
        Inr (st\<lparr>PATIENT_RECORDS := Map.empty, APPOINTMENTS := [], DOCTOR_RECORDS := Map.empty,
                KNOWN_ENCODINGS := [], KNOWN_NAMES := [],
                console := console st @ [CRITICAL, CRITICAL, CRITICAL, INFO, CRITICAL, WARNING]\<rparr>))"
  by (simp add: load_patient_records_def load_appointments_def load_doctor_records_def
      load_known_faces_def main_block_def cyber_log_def)

theorem corrupt_store_degrades_to_empty_witness:
  "main_block (module_globals (Unreadable JSONDecodeError) (Unreadable JSONDecodeError)
       (Unreadable JSONDecodeError) (Unreadable UnpicklingError)) =
     Inr ((module_globals (Unreadable JSONDecodeError) (Unreadable JSONDecodeError)
       (Unreadable JSONDecodeError) (Unreadable UnpicklingError))
          \<lparr>console := [CRITICAL, CRITICAL, CRITICAL, INFO, CRITICAL, WARNING]\<rparr>)"
  using corrupt_store_degrades_to_empty
    [of "module_globals (Unreadable JSONDecodeError) (Unreadable JSONDecodeError)
       (Unreadable JSONDecodeError) (Unreadable UnpicklingError)" UnpicklingError]
  by (simp add: module_globals_def)

text \<open>
  C7, evaluated on the code. The four backing files are present and hold bytes that
  are not valid UTF-8, so that reading them raises UnicodeDecodeError. The loaders of
  the patient records, of the appointments and of the doctors catch only the JSON
  decode error: the exception leaves each of them, and the main block with them. The
  loader of the encodings catches every exception and returns the empty pair with a
  CRITICAL message.
\<close>

theorem json_loaders_raise_on_undecodable_bytes:
  "load_patient_records
     (module_globals (Unreadable UnicodeDecodeError) (Unreadable UnicodeDecodeError)
        (Unreadable UnicodeDecodeError) (Unreadable UnicodeDecodeError)) =
     Inl UnicodeDecodeError \<and>
   load_appointments
     (module_globals (Unreadable UnicodeDecodeError) (Unreadable UnicodeDecodeError)
        (Unreadable UnicodeDecodeError) (Unreadable UnicodeDecodeError)) =
     Inl UnicodeDecodeError \<and>
   load_doctor_records
     (module_globals (Unreadable UnicodeDecodeError) (Unreadable UnicodeDecodeError)
        (Unreadable UnicodeDecodeError) (Unreadable UnicodeDecodeError)) =
     Inl UnicodeDecodeError \<and>
   main_block
     (module_globals (Unreadable UnicodeDecodeError) (Unreadable UnicodeDecodeError)
        (Unreadable UnicodeDecodeError) (Unreadable UnicodeDecodeError)) =
     Inl UnicodeDecodeError \<and>
   load_known_faces
     (module_globals (Unreadable UnicodeDecodeError) (Unreadable UnicodeDecodeError)
        (Unreadable UnicodeDecodeError) (Unreadable UnicodeDecodeError)) =
     (([], []),
      (module_globals (Unreadable UnicodeDecodeError) (Unreadable UnicodeDecodeError)
         (Unreadable UnicodeDecodeError) (Unreadable UnicodeDecodeError))
        \<lparr>console := [INFO, CRITICAL]\<rparr>)"
  by (simp add: load_patient_records_def load_appointments_def load_doctor_records_def
      load_known_faces_def main_block_def cyber_log_def module_globals_def)

section \<open>Properties of the match\<close>


lemma argmin_scan_correct:
  assumes "bi < length ys" "ys ! bi = b" "\<forall>j<length ys. b \<le> ys ! j" "\<forall>j<bi. b < ys ! j"
  shows "argmin_scan xs (length ys) bi b < length (ys @ xs) \<and>
         (\<forall>j<length (ys @ xs). (ys @ xs) ! argmin_scan xs (length ys) bi b \<le> (ys @ xs) ! j) \<and>
         (\<forall>j<argmin_scan xs (length ys) bi b.
             (ys @ xs) ! argmin_scan xs (length ys) bi b < (ys @ xs) ! j)"
  using assms
proof (induction xs arbitrary: ys bi b)
  case Nil
  then show ?case by simp
next
  case (Cons x xs)
  show ?case
  proof (cases "x < b")
    case True
    have "length ys < length (ys @ [x])" by simp
    moreover have "(ys @ [x]) ! length ys = x" by simp
    moreover have "\<forall>j<length (ys @ [x]). x \<le> (ys @ [x]) ! j"
      using True Cons.prems(3) by (auto simp: nth_append less_Suc_eq dest: spec)
    moreover have "\<forall>j<length ys. x < (ys @ [x]) ! j"
      using True Cons.prems(3) by (auto simp: nth_append dest: spec)
    ultimately have
      "argmin_scan xs (length (ys @ [x])) (length ys) x < length ((ys @ [x]) @ xs) \<and>
       (\<forall>j<length ((ys @ [x]) @ xs).
           ((ys @ [x]) @ xs) ! argmin_scan xs (length (ys @ [x])) (length ys) x
             \<le> ((ys @ [x]) @ xs) ! j) \<and>
       (\<forall>j<argmin_scan xs (length (ys @ [x])) (length ys) x.
           ((ys @ [x]) @ xs) ! argmin_scan xs (length (ys @ [x])) (length ys) x
             < ((ys @ [x]) @ xs) ! j)"
      by (rule Cons.IH)
    with True show ?thesis by simp
  next
    case False
    have "bi < length (ys @ [x])" using Cons.prems(1) by simp
    moreover have "(ys @ [x]) ! bi = b"
      using Cons.prems(1,2) by (simp add: nth_append)
    moreover have "\<forall>j<length (ys @ [x]). b \<le> (ys @ [x]) ! j"
      using False Cons.prems(3) by (auto simp: nth_append less_Suc_eq)
    moreover have "\<forall>j<bi. b < (ys @ [x]) ! j"
      using Cons.prems(1,4) by (auto simp: nth_append)
    ultimately have
      "argmin_scan xs (length (ys @ [x])) bi b < length ((ys @ [x]) @ xs) \<and>
       (\<forall>j<length ((ys @ [x]) @ xs).
           ((ys @ [x]) @ xs) ! argmin_scan xs (length (ys @ [x])) bi b
             \<le> ((ys @ [x]) @ xs) ! j) \<and>
       (\<forall>j<argmin_scan xs (length (ys @ [x])) bi b.
           ((ys @ [x]) @ xs) ! argmin_scan xs (length (ys @ [x])) bi b
             < ((ys @ [x]) @ xs) ! j)"
      by (rule Cons.IH)
    with False show ?thesis by simp
  qed
qed

lemma np_argmin_first_minimum:
  assumes "xs \<noteq> []"
  shows "\<exists>i. np_argmin xs = Inr i \<and> i < length xs \<and>
           (\<forall>j<length xs. xs ! i \<le> xs ! j) \<and> (\<forall>j<i. xs ! i < xs ! j)"
proof -
  obtain x rest where xs: "xs = x # rest"
    using assms by (cases xs) auto
  have "argmin_scan rest (length [x]) 0 x < length ([x] @ rest) \<and>
        (\<forall>j<length ([x] @ rest). ([x] @ rest) ! argmin_scan rest (length [x]) 0 x
            \<le> ([x] @ rest) ! j) \<and>
        (\<forall>j<argmin_scan rest (length [x]) 0 x.
            ([x] @ rest) ! argmin_scan rest (length [x]) 0 x < ([x] @ rest) ! j)"
    by (rule argmin_scan_correct) simp_all
  then show ?thesis
    by (simp add: np_argmin_def xs)
qed

lemma True_in_compare_faces:
  "True \<in> set (compare_faces d known q t) \<longleftrightarrow> (\<exists>k\<in>set known. d k q \<le> t)"
  by (auto simp: compare_faces_def face_distance_def)

lemma match_face_cases:
  assumes len: "length (KNOWN_NAMES st) = length (KNOWN_ENCODINGS st)"
  shows "(\<forall>k\<in>set (KNOWN_ENCODINGS st). \<not> d k q \<le> t) \<and> match_face d st q t = Inr ''Unknown'' \<or>
         (\<exists>i<length (KNOWN_ENCODINGS st).
             match_face d st q t = Inr (KNOWN_NAMES st ! i) \<and>
             d (KNOWN_ENCODINGS st ! i) q \<le> t \<and>
             (\<forall>j<length (KNOWN_ENCODINGS st).
                 d (KNOWN_ENCODINGS st ! i) q \<le> d (KNOWN_ENCODINGS st ! j) q) \<and>
             (\<forall>j<i. d (KNOWN_ENCODINGS st ! i) q < d (KNOWN_ENCODINGS st ! j) q))"
proof (cases "\<exists>k\<in>set (KNOWN_ENCODINGS st). d k q \<le> t")
  case False
  then show ?thesis
    by (simp add: match_face_def True_in_compare_faces Let_def)
next
  case True
  let ?encs = "KNOWN_ENCODINGS st"
  let ?ds = "face_distance d ?encs q"
  from True have ne: "?encs \<noteq> []" by auto
  then have "?ds \<noteq> []" by (simp add: face_distance_def)
  then obtain i where i: "np_argmin ?ds = Inr i" "i < length ?ds"
    "\<forall>j<length ?ds. ?ds ! i \<le> ?ds ! j" "\<forall>j<i. ?ds ! i < ?ds ! j"
    using np_argmin_first_minimum by blast
  have li: "i < length ?encs" using i(2) by (simp add: face_distance_def)
  have nth: "?ds ! j = d (?encs ! j) q" if "j < length ?encs" for j
    using that by (simp add: face_distance_def)
  from True obtain m where m: "m < length ?encs" "d (?encs ! m) q \<le> t"
    by (auto simp: in_set_conv_nth)
  have "d (?encs ! i) q \<le> d (?encs ! m) q"
    using i(3) m(1) li nth by (metis length_map face_distance_def)
  then have within: "d (?encs ! i) q \<le> t" using m(2) by simp
  have mins: "\<forall>j<length ?encs. d (?encs ! i) q \<le> d (?encs ! j) q"
    using i(3) li nth by (metis length_map face_distance_def)
  have first: "\<forall>j<i. d (?encs ! i) q < d (?encs ! j) q"
    using i(4) li nth by (metis less_trans)
  have "match_face d st q t = Inr (KNOWN_NAMES st ! i)"
    using True ne i(1) li len by (simp add: match_face_def True_in_compare_faces Let_def)
  then show ?thesis using li within mins first by blast
qed

text \<open>
  C1. With the names parallel to the encodings and no stored name equal to the
  sentinel (the registration form refuses it), for every tolerance and query the match
  is \<^verbatim>\<open>"Unknown"\<close> exactly when no stored vector is within the tolerance, in particular
  for the empty store; otherwise it is the name stored at an index whose distance is
  within the tolerance and is the least of all distances, the first such index in
  storage order.
\<close>

theorem match_face_nearest_within_tolerance:
  assumes len: "length (KNOWN_NAMES st) = length (KNOWN_ENCODINGS st)"
    and names: "''Unknown'' \<notin> set (KNOWN_NAMES st)"
  shows "(match_face d st q t = Inr ''Unknown'' \<longleftrightarrow>
            (\<forall>k\<in>set (KNOWN_ENCODINGS st). \<not> d k q \<le> t)) \<and>
         ((\<exists>k\<in>set (KNOWN_ENCODINGS st). d k q \<le> t) \<longrightarrow>
            (\<exists>i<length (KNOWN_ENCODINGS st).
                match_face d st q t = Inr (KNOWN_NAMES st ! i) \<and>
                d (KNOWN_ENCODINGS st ! i) q \<le> t \<and>
                (\<forall>j<length (KNOWN_ENCODINGS st).
                    d (KNOWN_ENCODINGS st ! i) q \<le> d (KNOWN_ENCODINGS st ! j) q) \<and>
                (\<forall>j<i. d (KNOWN_ENCODINGS st ! i) q < d (KNOWN_ENCODINGS st ! j) q)))"
proof -
  have stored: "KNOWN_NAMES st ! i \<noteq> ''Unknown''" if "i < length (KNOWN_ENCODINGS st)" for i
    using that len names by (metis nth_mem)
  from match_face_cases [OF len, of d q t] show ?thesis
  proof (elim disjE conjE exE)
    assume "\<forall>k\<in>set (KNOWN_ENCODINGS st). \<not> d k q \<le> t"
      and "match_face d st q t = Inr ''Unknown''"
    then show ?thesis by simp
  next
    fix i
    assume i: "i < length (KNOWN_ENCODINGS st)"
      and m: "match_face d st q t = Inr (KNOWN_NAMES st ! i)"
      and w: "d (KNOWN_ENCODINGS st ! i) q \<le> t"
      and least: "\<forall>j<length (KNOWN_ENCODINGS st).
                    d (KNOWN_ENCODINGS st ! i) q \<le> d (KNOWN_ENCODINGS st ! j) q"
      and first: "\<forall>j<i. d (KNOWN_ENCODINGS st ! i) q < d (KNOWN_ENCODINGS st ! j) q"
    have "match_face d st q t \<noteq> Inr ''Unknown''"
      using m stored [OF i] by simp
    moreover have "\<exists>k\<in>set (KNOWN_ENCODINGS st). d k q \<le> t"
      using i w nth_mem by blast
    ultimately show ?thesis
      using i m w least first by blast
  qed
qed

theorem match_face_nearest_within_tolerance_witness:
  "match_face (\<lambda>a b. sum_list (map2 (\<lambda>x y. \<bar>x - y\<bar>) a b))
     ((module_globals Missing Missing Missing Missing)
        \<lparr>KNOWN_ENCODINGS := [[1, 0, 0], [0, 1, 1]], KNOWN_NAMES := [''alice'', ''bob'']\<rparr>)
     [1, 0, 1 / 100] (6 / 10) = Inr ''alice'' \<and>
   match_face (\<lambda>a b. sum_list (map2 (\<lambda>x y. \<bar>x - y\<bar>) a b))
     ((module_globals Missing Missing Missing Missing)
        \<lparr>KNOWN_ENCODINGS := [[1, 0, 0], [0, 1, 1]], KNOWN_NAMES := [''alice'', ''bob'']\<rparr>)
     [0, 1, 0] (6 / 10) = Inr ''Unknown''"
proof -
  let ?st = "(module_globals Missing Missing Missing Missing)
        \<lparr>KNOWN_ENCODINGS := [[1, 0, 0], [0, 1, 1]], KNOWN_NAMES := [''alice'', ''bob'']\<rparr>"
  let ?d = "\<lambda>a b. sum_list (map2 (\<lambda>x y. \<bar>x - y\<bar>) a b) :: real"
  have len: "length (KNOWN_NAMES ?st) = length (KNOWN_ENCODINGS ?st)" by simp
  have names: "''Unknown'' \<notin> set (KNOWN_NAMES ?st)" by simp
  have far: "\<forall>k\<in>set (KNOWN_ENCODINGS ?st). \<not> ?d k [0, 1, 0] \<le> 6 / 10" by simp
  have unknown: "match_face ?d ?st [0, 1, 0] (6 / 10) = Inr ''Unknown''"
    using match_face_nearest_within_tolerance [OF len names, of ?d "[0, 1, 0]" "6 / 10"] far
    by blast
  have alice: "match_face ?d ?st [1, 0, 1 / 100] (6 / 10) = Inr ''alice''"
    by (simp add: match_face_def compare_faces_def face_distance_def np_argmin_def)
  show ?thesis using unknown alice by blast
qed

section \<open>Properties of the registration\<close>

lemma register_fields:
  "new_encodings (capture_loop cap) \<noteq> [] \<Longrightarrow>
   register_new_user_process cap pd st =
     (st\<lparr>KNOWN_ENCODINGS := KNOWN_ENCODINGS st @ [np_mean_axis0 (new_encodings (capture_loop cap))],
         KNOWN_NAMES := KNOWN_NAMES st @ [pd_name pd],
         ENCODINGS_FILE := Stored
           (KNOWN_ENCODINGS st @ [np_mean_axis0 (new_encodings (capture_loop cap))],
            KNOWN_NAMES st @ [pd_name pd]),
         PATIENT_RECORDS := (PATIENT_RECORDS st)(pd_name pd \<mapsto> pd_details pd),
         PATIENT_DATA_FILE := Stored ((PATIENT_RECORDS st)(pd_name pd \<mapsto> pd_details pd)),
         console := console st @ capture_console (capture_loop cap) @ [SUCCESS, SUCCESS]\<rparr>,
      RegistrationComplete)"
  by (simp add: register_new_user_process_def Let_def save_encodings_def save_patient_record_def
      save_patient_records_to_file_def cyber_log_def)

lemma register_failed:
  "new_encodings (capture_loop cap) = [] \<Longrightarrow>
   register_new_user_process cap pd st =
     (st\<lparr>console := console st @ capture_console (capture_loop cap)\<rparr>, RegistrationFailed)"
  by (simp add: register_new_user_process_def Let_def)

lemma np_mean_axis0_nth:
  "vs \<noteq> [] \<Longrightarrow>
   length (np_mean_axis0 vs) = length (hd vs) \<and>
   (\<forall>j<length (hd vs). np_mean_axis0 vs ! j = (\<Sum>u\<leftarrow>vs. u ! j) / real (length vs))"
  by (cases vs) (simp_all add: np_mean_axis0_def)

lemma range_registration: "[0..<NUM_REGISTRATION_IMAGES] = [0, 1, 2, 3, 4]"
  unfolding NUM_REGISTRATION_IMAGES_def by (simp add: upt_rec)

text \<open>
  C2, evaluated on the code. The first pass of the capture loop sees a frame with no
  face, the four others see one face each. The rejected pass is not redone: the loop
  ends after its five passes with four accepted captures, and the registration still
  averages them and completes.
\<close>

theorem rejected_capture_consumes_slot:
  "capture_loop (\<lambda>k. if k < 2 then Frame [] else
      Frame [\<lparr>face_encoding = [1, 1], face_loc = (0, 0, 0, 0)\<rparr>]) =
     \<lparr>reads = 10, i_var = 4, new_encodings = [[1, 1], [1, 1], [1, 1], [1, 1]],
      saved_images = [2, 3, 4, 5],
      capture_console =
        [INFO, WARNING, INFO, SUCCESS, INFO, SUCCESS, INFO, SUCCESS, INFO, SUCCESS]\<rparr> \<and>
   snd (register_new_user_process
          (\<lambda>k. if k < 2 then Frame [] else
             Frame [\<lparr>face_encoding = [1, 1], face_loc = (0, 0, 0, 0)\<rparr>])
          \<lparr>pd_name = ''bob'', pd_details = Map.empty\<rparr>
          (module_globals Missing Missing Missing Missing)) = RegistrationComplete \<and>
   KNOWN_ENCODINGS (fst (register_new_user_process
          (\<lambda>k. if k < 2 then Frame [] else
             Frame [\<lparr>face_encoding = [1, 1], face_loc = (0, 0, 0, 0)\<rparr>])
          \<lparr>pd_name = ''bob'', pd_details = Map.empty\<rparr>
          (module_globals Missing Missing Missing Missing))) = [[1, 1]]"
proof -
  let ?cap = "\<lambda>k::nat. if k < 2 then Frame [] else
      Frame [\<lparr>face_encoding = [1, 1], face_loc = (0, 0, 0, 0)\<rparr>]"
  have loop: "capture_loop ?cap =
     \<lparr>reads = 10, i_var = 4, new_encodings = [[1, 1], [1, 1], [1, 1], [1, 1]],
      saved_images = [2, 3, 4, 5],
      capture_console =
        [INFO, WARNING, INFO, SUCCESS, INFO, SUCCESS, INFO, SUCCESS, INFO, SUCCESS]\<rparr>"
    by (simp add: capture_loop_def range_registration capture_attempt_def)
  have ne: "new_encodings (capture_loop ?cap) \<noteq> []"
    by (simp add: loop)
  have mean: "np_mean_axis0 [[1, 1], [1, 1], [1, 1], [1, 1]] = [1, 1]"
    by (simp add: np_mean_axis0_def)
  show ?thesis
    using loop mean by (simp add: register_fields [OF ne] module_globals_def)
qed

text \<open>
  C3. When the accepted captures are not empty, the registration completes and appends
  exactly one vector, their component-wise arithmetic mean, to the known encodings
  and the given name to the known names, and saves both; when they are empty it
  fails, and the state it returns differs from the one it was given only by the
  console, so neither the encodings nor the patient records change.
\<close>

theorem enrollment_stores_mean_once:
  assumes "new_encodings (capture_loop cap) = encs"
  shows "(encs \<noteq> [] \<longrightarrow>
            snd (register_new_user_process cap pd st) = RegistrationComplete \<and>
            KNOWN_ENCODINGS (fst (register_new_user_process cap pd st)) =
              KNOWN_ENCODINGS st @ [np_mean_axis0 encs] \<and>
            KNOWN_NAMES (fst (register_new_user_process cap pd st)) =
              KNOWN_NAMES st @ [pd_name pd] \<and>
            ENCODINGS_FILE (fst (register_new_user_process cap pd st)) =
              Stored (KNOWN_ENCODINGS st @ [np_mean_axis0 encs], KNOWN_NAMES st @ [pd_name pd]) \<and>
            length (np_mean_axis0 encs) = length (hd encs) \<and>
            (\<forall>j<length (hd encs).
                np_mean_axis0 encs ! j = (\<Sum>u\<leftarrow>encs. u ! j) / real (length encs))) \<and>
         (encs = [] \<longrightarrow>
            register_new_user_process cap pd st =
              (st\<lparr>console := console st @ capture_console (capture_loop cap)\<rparr>,
               RegistrationFailed))"
proof (cases "encs = []")
  case True
  then show ?thesis
    using assms register_failed by simp
next
  case False
  then have ne: "new_encodings (capture_loop cap) \<noteq> []"
    using assms by simp
  show ?thesis
    using False assms np_mean_axis0_nth [OF False] by (simp add: register_fields [OF ne])
qed

theorem enrollment_stores_mean_once_witness:
  "KNOWN_ENCODINGS (fst (register_new_user_process
      (\<lambda>k. if k < 2 then Frame [\<lparr>face_encoding = [2, 2], face_loc = (0, 0, 0, 0)\<rparr>]
            else if k < 4 then Frame [\<lparr>face_encoding = [0, 0], face_loc = (0, 0, 0, 0)\<rparr>]
            else NoFrame)
      \<lparr>pd_name = ''bob'', pd_details = Map.empty\<rparr>
      (module_globals Missing Missing Missing Missing))) = [[1, 1]] \<and>
   KNOWN_NAMES (fst (register_new_user_process
      (\<lambda>k. if k < 2 then Frame [\<lparr>face_encoding = [2, 2], face_loc = (0, 0, 0, 0)\<rparr>]
            else if k < 4 then Frame [\<lparr>face_encoding = [0, 0], face_loc = (0, 0, 0, 0)\<rparr>]
            else NoFrame)
      \<lparr>pd_name = ''bob'', pd_details = Map.empty\<rparr>
      (module_globals Missing Missing Missing Missing))) = [''bob''] \<and>
   register_new_user_process (\<lambda>k. NoFrame) \<lparr>pd_name = ''bob'', pd_details = Map.empty\<rparr>
      (module_globals Missing Missing Missing Missing) =
     ((module_globals Missing Missing Missing Missing)
        \<lparr>console := [INFO, WARNING, INFO, WARNING, INFO, WARNING, INFO, WARNING, INFO, WARNING]\<rparr>,
      RegistrationFailed)"
proof -
  let ?cap = "\<lambda>k::nat. if k < 2 then Frame [\<lparr>face_encoding = [2, 2], face_loc = (0, 0, 0, 0)\<rparr>]
            else if k < 4 then Frame [\<lparr>face_encoding = [0, 0], face_loc = (0, 0, 0, 0)\<rparr>]
            else NoFrame"
  have two: "new_encodings (capture_loop ?cap) = [[2, 2], [0, 0]]"
    by (simp add: capture_loop_def range_registration capture_attempt_def)
  have none: "capture_loop (\<lambda>k. NoFrame) =
      \<lparr>reads = 5, i_var = 4, new_encodings = [], saved_images = [],
       capture_console =
         [INFO, WARNING, INFO, WARNING, INFO, WARNING, INFO, WARNING, INFO, WARNING]\<rparr>"
    by (simp add: capture_loop_def range_registration capture_attempt_def)
  have mean: "np_mean_axis0 [[2, 2], [0, 0]] = [1, 1]"
    by (simp add: np_mean_axis0_def)
  have empty: "new_encodings (capture_loop (\<lambda>k. NoFrame)) = []"
    by (simp add: none)
  show ?thesis
    using enrollment_stores_mean_once [OF two, of "\<lparr>pd_name = ''bob'', pd_details = Map.empty\<rparr>"
        "module_globals Missing Missing Missing Missing"]
      enrollment_stores_mean_once [OF empty, of "\<lparr>pd_name = ''bob'', pd_details = Map.empty\<rparr>"
        "module_globals Missing Missing Missing Missing"]
      mean none
    by (simp add: module_globals_def)
qed

lemma json_loaders_keep_encodings:
  "load_patient_records st = Inr st' \<Longrightarrow>
     ENCODINGS_FILE st' = ENCODINGS_FILE st \<and> KNOWN_ENCODINGS st' = KNOWN_ENCODINGS st \<and>
     KNOWN_NAMES st' = KNOWN_NAMES st"
  "load_appointments st = Inr st' \<Longrightarrow>
     ENCODINGS_FILE st' = ENCODINGS_FILE st \<and> KNOWN_ENCODINGS st' = KNOWN_ENCODINGS st \<and>
     KNOWN_NAMES st' = KNOWN_NAMES st"
  "load_doctor_records st = Inr st' \<Longrightarrow>
     ENCODINGS_FILE st' = ENCODINGS_FILE st \<and> KNOWN_ENCODINGS st' = KNOWN_ENCODINGS st \<and>
     KNOWN_NAMES st' = KNOWN_NAMES st"
  by (auto simp: load_patient_records_def load_appointments_def load_doctor_records_def
      cyber_log_def save_patient_records_to_file_def save_appointments_def
      save_doctor_records_def split: backing_file.splits if_splits)

lemma load_known_faces_parallel:
  assumes "case ENCODINGS_FILE st of Stored data \<Rightarrow> length (fst data) = length (snd data)
           | _ \<Rightarrow> True"
  shows "length (fst (fst (load_known_faces st))) = length (snd (fst (load_known_faces st))) \<and>
         ENCODINGS_FILE (snd (load_known_faces st)) = ENCODINGS_FILE st"
  using assms by (auto simp: load_known_faces_def cyber_log_def split: backing_file.splits)

lemma main_block_parallel:
  assumes "main_block st = Inr st'"
    and "case ENCODINGS_FILE st of Stored data \<Rightarrow> length (fst data) = length (snd data)
         | _ \<Rightarrow> True"
  shows "parallel_stores st'"
proof -
  from assms(1) obtain s1 s2 s3 where
    l1: "load_patient_records st = Inr s1" and l2: "load_appointments s1 = Inr s2"
    and l3: "load_doctor_records s2 = Inr s3"
    by (auto simp: main_block_def split: sum.splits)
  have f3: "ENCODINGS_FILE s3 = ENCODINGS_FILE st"
    using json_loaders_keep_encodings(1) [OF l1] json_loaders_keep_encodings(2) [OF l2]
      json_loaders_keep_encodings(3) [OF l3] by simp
  then have ok: "case ENCODINGS_FILE s3 of Stored data \<Rightarrow> length (fst data) = length (snd data)
         | _ \<Rightarrow> True"
    using assms(2) by simp
  obtain encs names s4 where l4: "load_known_faces s3 = ((encs, names), s4)"
    by (metis surj_pair)
  have p: "length encs = length names" "ENCODINGS_FILE s4 = ENCODINGS_FILE st"
    using load_known_faces_parallel [OF ok] l4 f3 by simp_all
  have "st' = (if length encs = 0
        then cyber_log WARNING (s4\<lparr>KNOWN_ENCODINGS := encs, KNOWN_NAMES := names\<rparr>)
        else s4\<lparr>KNOWN_ENCODINGS := encs, KNOWN_NAMES := names\<rparr>)"
    using assms(1) l1 l2 l3 l4 by (simp add: main_block_def Let_def)
  then show ?thesis
    using p assms(2) by (simp add: parallel_stores_def cyber_log_def)
qed

lemma restart_parallel: "parallel_stores st \<Longrightarrow> parallel_stores (restart st)"
proof -
  assume p: "parallel_stores st"
  let ?st0 = "module_globals (PATIENT_DATA_FILE st) (APPOINTMENTS_FILE st)
                  (DOCTOR_DATA_FILE st) (ENCODINGS_FILE st)"
  have blob: "case ENCODINGS_FILE ?st0 of Stored data \<Rightarrow> length (fst data) = length (snd data)
         | _ \<Rightarrow> True"
    using p by (simp add: parallel_stores_def module_globals_def)
  have st0: "parallel_stores ?st0"
    using p by (simp add: parallel_stores_def module_globals_def)
  show ?thesis
  proof (cases "main_block ?st0")
    case (Inl e)
    then show ?thesis using st0 by (simp add: restart_def)
  next
    case (Inr st')
    then show ?thesis using main_block_parallel [OF Inr blob] by (simp add: restart_def)
  qed
qed

lemma register_parallel:
  "parallel_stores st \<Longrightarrow> parallel_stores (fst (register_new_user_process cap pd st))"
  by (cases "new_encodings (capture_loop cap) = []")
    (simp_all add: register_failed register_fields parallel_stores_def)

lemma run_step_parallel: "parallel_stores st \<Longrightarrow> parallel_stores (run_step x st)"
  by (cases x) (simp_all add: restart_parallel register_parallel)

lemma run_parallel: "parallel_stores st \<Longrightarrow> parallel_stores (fold run_step steps st)"
  by (induction steps arbitrary: st) (simp_all add: run_step_parallel)

lemma match_face_in_bounds:
  assumes "length (KNOWN_NAMES st) = length (KNOWN_ENCODINGS st)"
  shows "\<exists>nm. match_face d st q t = Inr nm"
  using match_face_cases [OF assms, of d q t] by blast

text \<open>
  C10. From a state whose known encodings and names are parallel, in memory and in
  the saved blob (a fresh installation is one), every run of restarts and
  registrations ends in such a state: the two sequences have the same length, and
  the match of a face never indexes the names out of bounds.
\<close>

theorem known_faces_stay_parallel:
  assumes "parallel_stores st0"
  shows "parallel_stores (fold run_step steps st0) \<and>
         length (KNOWN_ENCODINGS (fold run_step steps st0)) =
           length (KNOWN_NAMES (fold run_step steps st0)) \<and>
         (\<exists>nm. match_face d (fold run_step steps st0) q t = Inr nm)"
proof -
  have p: "parallel_stores (fold run_step steps st0)"
    using assms by (rule run_parallel)
  then have len: "length (KNOWN_NAMES (fold run_step steps st0)) =
      length (KNOWN_ENCODINGS (fold run_step steps st0))"
    by (simp add: parallel_stores_def)
  show ?thesis
    using p len match_face_in_bounds [OF len] by simp
qed

theorem known_faces_stay_parallel_witness:
  "parallel_stores (module_globals Missing Missing Missing Missing) \<and>
   KNOWN_NAMES (fold run_step
      [Restart,
       Register (\<lambda>k. Frame [\<lparr>face_encoding = [1, 0, 0], face_loc = (0, 0, 0, 0)\<rparr>])
         \<lparr>pd_name = ''alice'', pd_details = Map.empty\<rparr>,
       Restart]
      (module_globals Missing Missing Missing Missing)) = [''alice''] \<and>
   length (KNOWN_ENCODINGS (fold run_step
      [Restart,
       Register (\<lambda>k. Frame [\<lparr>face_encoding = [1, 0, 0], face_loc = (0, 0, 0, 0)\<rparr>])
         \<lparr>pd_name = ''alice'', pd_details = Map.empty\<rparr>,
       Restart]
      (module_globals Missing Missing Missing Missing))) = 1"
proof -
  let ?st0 = "module_globals Missing Missing Missing Missing"
  let ?cap = "\<lambda>k::nat. Frame [\<lparr>face_encoding = [1, 0, 0], face_loc = (0, 0, 0, 0)\<rparr>]"
  let ?steps = "[Restart, Register ?cap \<lparr>pd_name = ''alice'', pd_details = Map.empty\<rparr>, Restart]"
  have start: "parallel_stores ?st0"
    by (simp add: parallel_stores_def module_globals_def)
  have five: "new_encodings (capture_loop ?cap) =
      [[1, 0, 0], [1, 0, 0], [1, 0, 0], [1, 0, 0], [1, 0, 0]]"
    by (simp add: capture_loop_def range_registration capture_attempt_def)
  then have ne: "new_encodings (capture_loop ?cap) \<noteq> []"
    by simp
  have names: "KNOWN_NAMES (fold run_step ?steps ?st0) = [''alice'']"
    by (simp add: restart_def main_block_def load_patient_records_def load_appointments_def
        load_doctor_records_def load_known_faces_def cyber_log_def
        save_patient_records_to_file_def save_appointments_def save_doctor_records_def
        module_globals_def register_fields [OF ne])
  show ?thesis
    using start names
      known_faces_stay_parallel [OF start, of ?steps "\<lambda>a b. 0" "[]" 0]
    by simp
qed

lemma recognise_faces_parallel:
  assumes len: "length (KNOWN_NAMES st) = length (KNOWN_ENCODINGS st)"
  shows "\<exists>names. length names = length faces \<and>
           (\<forall>i<length faces.
               match_face d st (face_encoding (faces ! i)) TOLERANCE = Inr (names ! i)) \<and>
           recognise_faces d st faces (shown, drawn) =
             Inr (last (shown # names),
                  drawn @ map (\<lambda>i. draw_face (names ! i) (face_loc (faces ! i)))
                            [0..<length faces])"
proof (induction faces arbitrary: shown drawn)
  case Nil
  then show ?case by simp
next
  case (Cons f fs)
  obtain nm where nm: "match_face d st (face_encoding f) TOLERANCE = Inr nm"
    using match_face_in_bounds [OF len] by blast
  obtain names where names: "length names = length fs"
    "\<forall>i<length fs. match_face d st (face_encoding (fs ! i)) TOLERANCE = Inr (names ! i)"
    "recognise_faces d st fs (nm, drawn @ [draw_face nm (face_loc f)]) =
       Inr (last (nm # names),
            (drawn @ [draw_face nm (face_loc f)]) @
              map (\<lambda>i. draw_face (names ! i) (face_loc (fs ! i))) [0..<length fs])"
    using Cons.IH by blast
  have matches: "\<forall>i<length (f # fs).
      match_face d st (face_encoding ((f # fs) ! i)) TOLERANCE = Inr ((nm # names) ! i)"
    using nm names(2) by (simp add: nth_Cons split: nat.splits)
  have overlays: "map (\<lambda>i. draw_face ((nm # names) ! i) (face_loc ((f # fs) ! i)))
        [0..<length (f # fs)] =
      draw_face nm (face_loc f) #
        map (\<lambda>i. draw_face (names ! i) (face_loc (fs ! i))) [0..<length fs]"
    by (simp add: map_upt_Suc del: upt_Suc)
  have "recognise_faces d st (f # fs) (shown, drawn) =
      Inr (last (shown # nm # names),
           drawn @ map (\<lambda>i. draw_face ((nm # names) ! i) (face_loc ((f # fs) ! i)))
                     [0..<length (f # fs)])"
    using nm names(3) overlays by simp
  then show ?case
    using names(1) matches by (intro exI [of _ "nm # names"]) simp
qed

text \<open>
  C8. For a frame with at least one face (and names parallel to the encodings, so that
  no match raises), every face has its own match; overlay \<open>i\<close> is drawn from the match
  and the box of face \<open>i\<close>, and the panel is the one built for the match of the last
  face in detection order: its identity line is that name, its attribute lines, alert
  and history are read from the details resolved for that name, and its appointment
  list is made of the appointments whose patient name equals that name without regard
  to case, in stored order.
\<close>

theorem panel_shows_last_face:
  assumes len: "length (KNOWN_NAMES st) = length (KNOWN_ENCODINGS st)"
    and faces: "faces \<noteq> []"
  shows "\<exists>names info_panel.
           length names = length faces \<and>
           (\<forall>i<length faces.
               match_face d st (face_encoding (faces ! i)) TOLERANCE = Inr (names ! i)) \<and>
           process_frame d is_today st faces =
             Inr (map (\<lambda>i. draw_face (names ! i) (face_loc (faces ! i))) [0..<length faces],
                  info_panel) \<and>
           info_panel = build_panel is_today st (last names) \<and>
           status_text info_panel = ''ID: '' @ upper (last names) \<and>
           field_lines info_panel =
             [''AGE: '' @ upper (get (current_details st (last names)) ''age'' ''N/A''),
              ''GENDER: '' @ upper (get (current_details st (last names)) ''gender'' ''N/A''),
              ''LAST VISIT: '' @
                upper (takeWhile (\<lambda>c. c \<noteq> CHR '' '')
                         (get (current_details st (last names)) ''last_visit'' ''N/A''))] \<and>
           alert_text info_panel =
             ''ALERT: '' @ upper (get (current_details st (last names)) ''allergies'' ''None'') \<and>
           history_text info_panel =
             get (current_details st (last names)) ''history'' ''NO DATA LOGGED.'' \<and>
           appointment_lines info_panel =
             (if filter (\<lambda>app. lower (appt_name app) = lower (last names)) (APPOINTMENTS st) = []
              then [(''NO APPOINTMENT FOUND.'', GRAY_TEXT)]
              else map (appointment_line is_today)
                     (filter (\<lambda>app. lower (appt_name app) = lower (last names))
                        (APPOINTMENTS st)))"
proof -
  obtain names where names: "length names = length faces"
    "\<forall>i<length faces. match_face d st (face_encoding (faces ! i)) TOLERANCE = Inr (names ! i)"
    "recognise_faces d st faces (''Unknown'', []) =
       Inr (last (''Unknown'' # names),
            [] @ map (\<lambda>i. draw_face (names ! i) (face_loc (faces ! i))) [0..<length faces])"
    using recognise_faces_parallel [OF len] by blast
  have "names \<noteq> []" using names(1) faces by auto
  then have "last (''Unknown'' # names) = last names" by simp
  then have frame: "process_frame d is_today st faces =
      Inr (map (\<lambda>i. draw_face (names ! i) (face_loc (faces ! i))) [0..<length faces],
           build_panel is_today st (last names))"
    using names(3) by (simp add: process_frame_def)
  have texts: "status_text (build_panel is_today st (last names)) = ''ID: '' @ upper (last names)"
    "field_lines (build_panel is_today st (last names)) =
       [''AGE: '' @ upper (get (current_details st (last names)) ''age'' ''N/A''),
        ''GENDER: '' @ upper (get (current_details st (last names)) ''gender'' ''N/A''),
        ''LAST VISIT: '' @
          upper (takeWhile (\<lambda>c. c \<noteq> CHR '' '')
                   (get (current_details st (last names)) ''last_visit'' ''N/A''))]"
    "alert_text (build_panel is_today st (last names)) =
       ''ALERT: '' @ upper (get (current_details st (last names)) ''allergies'' ''None'')"
    "history_text (build_panel is_today st (last names)) =
       get (current_details st (last names)) ''history'' ''NO DATA LOGGED.''"
    by (simp_all add: build_panel_def Let_def)
  have appts: "appointment_lines (build_panel is_today st (last names)) =
      (if filter (\<lambda>app. lower (appt_name app) = lower (last names)) (APPOINTMENTS st) = []
       then [(''NO APPOINTMENT FOUND.'', GRAY_TEXT)]
       else map (appointment_line is_today)
              (filter (\<lambda>app. lower (appt_name app) = lower (last names)) (APPOINTMENTS st)))"
    by (simp add: build_panel_def Let_def current_appointments_def)
  show ?thesis
    using names(1,2) frame texts appts by blast
qed

theorem panel_shows_last_face_witness:
  "process_frame (\<lambda>a b. sum_list (map2 (\<lambda>x y. \<bar>x - y\<bar>) a b)) (\<lambda>s. s = ''2025-03-01'')
     ((module_globals Missing Missing Missing Missing)
        \<lparr>KNOWN_ENCODINGS := [[1, 0, 0], [0, 1, 0]], KNOWN_NAMES := [''alice'', ''bob''],
         PATIENT_RECORDS :=
           [''alice'' \<mapsto> [''age'' \<mapsto> ''30'', ''gender'' \<mapsto> ''f'', ''allergies'' \<mapsto> ''peanuts'',
                         ''history'' \<mapsto> ''Migraine'', ''last_visit'' \<mapsto> ''2024-12-01 08:15:00''],
            ''bob'' \<mapsto> [''age'' \<mapsto> ''41'', ''gender'' \<mapsto> ''m'', ''allergies'' \<mapsto> ''none'',
                       ''history'' \<mapsto> ''Asthma'', ''last_visit'' \<mapsto> ''2025-01-05 10:30:00'']],
         APPOINTMENTS :=
           [\<lparr>appt_name = ''alice'', appt_date = ''2025-02-01'', appt_time = ''10:00'',
             appt_reason = ''checkup'', appt_doctor = Some ''who''\<rparr>,
            \<lparr>appt_name = ''Bob'', appt_date = ''2025-03-01'', appt_time = ''09:00'',
             appt_reason = ''review'', appt_doctor = Some ''who''\<rparr>,
            \<lparr>appt_name = ''bob'', appt_date = ''2025-04-02'', appt_time = ''14:30'',
             appt_reason = ''follow-up'', appt_doctor = None\<rparr>]\<rparr>)
     [\<lparr>face_encoding = [1, 0, 0], face_loc = (1, 4, 3, 2)\<rparr>,
      \<lparr>face_encoding = [0, 1, 0], face_loc = (5, 8, 7, 6)\<rparr>] =
   Inr ([\<lparr>box = (4, 16, 12, 8), box_colour = NEON_GREEN, label = ''ALICE''\<rparr>,
         \<lparr>box = (20, 32, 28, 24), box_colour = NEON_GREEN, label = ''BOB''\<rparr>],
        \<lparr>status_text = ''ID: BOB'', status_colour = NEON_CYAN,
         field_lines = [''AGE: 41'', ''GENDER: M'', ''LAST VISIT: 2025-01-05''],
         alert_text = ''ALERT: NONE'', allergy_colour = NEON_GREEN,
         history_text = ''Asthma'',
         appointment_lines =
           [(''TODAY 09:00 | Dr. who | review'', APPOINTMENT_COLOR),
            (''14:30 | Dr. UNASSIGNED | follow-up'', GRAY_TEXT)]\<rparr>)"
proof -
  let ?d = "\<lambda>a b. sum_list (map2 (\<lambda>x y. \<bar>x - y\<bar>) a b) :: real"
  let ?today = "\<lambda>s. s = ''2025-03-01''"
  let ?st = "(module_globals Missing Missing Missing Missing)
        \<lparr>KNOWN_ENCODINGS := [[1, 0, 0], [0, 1, 0]], KNOWN_NAMES := [''alice'', ''bob''],
         PATIENT_RECORDS :=
           [''alice'' \<mapsto> [''age'' \<mapsto> ''30'', ''gender'' \<mapsto> ''f'', ''allergies'' \<mapsto> ''peanuts'',
                         ''history'' \<mapsto> ''Migraine'', ''last_visit'' \<mapsto> ''2024-12-01 08:15:00''],
            ''bob'' \<mapsto> [''age'' \<mapsto> ''41'', ''gender'' \<mapsto> ''m'', ''allergies'' \<mapsto> ''none'',
                       ''history'' \<mapsto> ''Asthma'', ''last_visit'' \<mapsto> ''2025-01-05 10:30:00'']],
         APPOINTMENTS :=
           [\<lparr>appt_name = ''alice'', appt_date = ''2025-02-01'', appt_time = ''10:00'',
             appt_reason = ''checkup'', appt_doctor = Some ''who''\<rparr>,
            \<lparr>appt_name = ''Bob'', appt_date = ''2025-03-01'', appt_time = ''09:00'',
             appt_reason = ''review'', appt_doctor = Some ''who''\<rparr>,
            \<lparr>appt_name = ''bob'', appt_date = ''2025-04-02'', appt_time = ''14:30'',
             appt_reason = ''follow-up'', appt_doctor = None\<rparr>]\<rparr>"
  let ?faces = "[\<lparr>face_encoding = [1, 0, 0], face_loc = (1, 4, 3, 2)\<rparr>,
      \<lparr>face_encoding = [0, 1, 0], face_loc = (5, 8, 7, 6)\<rparr>]"
  have len: "length (KNOWN_NAMES ?st) = length (KNOWN_ENCODINGS ?st)" by simp
  have ne: "?faces \<noteq> []" by simp
  have m0: "match_face ?d ?st [1, 0, 0] TOLERANCE = Inr ''alice''"
    by (simp add: match_face_def compare_faces_def face_distance_def np_argmin_def TOLERANCE_def)
  have m1: "match_face ?d ?st [0, 1, 0] TOLERANCE = Inr ''bob''"
    by (simp add: match_face_def compare_faces_def face_distance_def np_argmin_def TOLERANCE_def)
  obtain names info_panel where names: "length names = length ?faces"
    "\<forall>i<length ?faces. match_face ?d ?st (face_encoding (?faces ! i)) TOLERANCE = Inr (names ! i)"
    "process_frame ?d ?today ?st ?faces =
       Inr (map (\<lambda>i. draw_face (names ! i) (face_loc (?faces ! i))) [0..<length ?faces],
            info_panel)"
    "info_panel = build_panel ?today ?st (last names)"
    using panel_shows_last_face [OF len ne, of ?d ?today] by blast
  from names(1) obtain a b where ab: "names = [a, b]"
    by (cases names; cases "tl names") auto
  have "a = ''alice''" using names(2) m0 ab by (auto dest: spec [of _ 0])
  moreover have "b = ''bob''" using names(2) m1 ab by (auto dest: spec [of _ 1])
  ultimately have nm: "names = [''alice'', ''bob'']" using ab by simp
  have up: "[0..<length ?faces] = [0, 1]" by (simp add: upt_rec)
  have ov: "map (\<lambda>i. draw_face (names ! i) (face_loc (?faces ! i))) [0..<length ?faces] =
      [\<lparr>box = (4, 16, 12, 8), box_colour = NEON_GREEN, label = ''ALICE''\<rparr>,
       \<lparr>box = (20, 32, 28, 24), box_colour = NEON_GREEN, label = ''BOB''\<rparr>]"
    unfolding up nm
    by (simp add: draw_face_def FRAME_RESIZE_SCALE_def upper_def upper_char_def)
  have pn: "build_panel ?today ?st (last names) =
      \<lparr>status_text = ''ID: BOB'', status_colour = NEON_CYAN,
       field_lines = [''AGE: 41'', ''GENDER: M'', ''LAST VISIT: 2025-01-05''],
       alert_text = ''ALERT: NONE'', allergy_colour = NEON_GREEN,
       history_text = ''Asthma'',
       appointment_lines =
         [(''TODAY 09:00 | Dr. who | review'', APPOINTMENT_COLOR),
          (''14:30 | Dr. UNASSIGNED | follow-up'', GRAY_TEXT)]\<rparr>"
    unfolding nm
    by (simp add: build_panel_def current_details_def current_appointments_def get_def
        appointment_line_def module_globals_def upper_def upper_char_def lower_def
        lower_char_def)
  show ?thesis
    using names(3,4) ov pn by simp
qed

section \<open>Properties of the triage panel and of the recognition loop\<close>

text \<open>
  C4, as stated, fails. With \<^verbatim>\<open>alice\<close> known to the encodings and absent from the patient
  records, a frame showing her face and a frame showing a stranger's give the same
  default attributes, alert text and history, but not the same panel: for the matched
  name the allergy alert is drawn in the critical colour, for the unrecognized face in
  green, and the identity line differs.
\<close>

theorem matched_without_record_counterexample:
  "process_frame (\<lambda>a b. sum_list (map2 (\<lambda>x y. \<bar>x - y\<bar>) a b)) (\<lambda>s. False)
     ((module_globals Missing Missing Missing Missing)
        \<lparr>KNOWN_ENCODINGS := [[1, 0, 0]], KNOWN_NAMES := [''alice'']\<rparr>)
     [\<lparr>face_encoding = [1, 0, 0], face_loc = (1, 4, 3, 2)\<rparr>] =
   Inr ([\<lparr>box = (4, 16, 12, 8), box_colour = NEON_GREEN, label = ''ALICE''\<rparr>],
        \<lparr>status_text = ''ID: ALICE'', status_colour = NEON_CYAN,
         field_lines = [''AGE: N/A'', ''GENDER: N/A'', ''LAST VISIT: N/A''],
         alert_text = ''ALERT: UNKNOWN'', allergy_colour = CRITICAL_RED_BGR,
         history_text = ''No record found.'',
         appointment_lines = [(''NO APPOINTMENT FOUND.'', GRAY_TEXT)]\<rparr>) \<and>
   process_frame (\<lambda>a b. sum_list (map2 (\<lambda>x y. \<bar>x - y\<bar>) a b)) (\<lambda>s. False)
     ((module_globals Missing Missing Missing Missing)
        \<lparr>KNOWN_ENCODINGS := [[1, 0, 0]], KNOWN_NAMES := [''alice'']\<rparr>)
     [\<lparr>face_encoding = [0, 1, 0], face_loc = (1, 4, 3, 2)\<rparr>] =
   Inr ([\<lparr>box = (4, 16, 12, 8), box_colour = CRITICAL_RED_BGR, label = ''UNKNOWN''\<rparr>],
        \<lparr>status_text = ''ID: UNKNOWN'', status_colour = CRITICAL_RED_BGR,
         field_lines = [''AGE: N/A'', ''GENDER: N/A'', ''LAST VISIT: N/A''],
         alert_text = ''ALERT: UNKNOWN'', allergy_colour = NEON_GREEN,
         history_text = ''No record found.'',
         appointment_lines = [(''NO APPOINTMENT FOUND.'', GRAY_TEXT)]\<rparr>)"
proof -
  let ?d = "\<lambda>a b. sum_list (map2 (\<lambda>x y. \<bar>x - y\<bar>) a b) :: real"
  let ?st = "(module_globals Missing Missing Missing Missing)
        \<lparr>KNOWN_ENCODINGS := [[1, 0, 0]], KNOWN_NAMES := [''alice'']\<rparr>"
  have m0: "match_face ?d ?st [1, 0, 0] TOLERANCE = Inr ''alice''"
    by (simp add: match_face_def compare_faces_def face_distance_def np_argmin_def TOLERANCE_def)
  have m1: "match_face ?d ?st [0, 1, 0] TOLERANCE = Inr ''Unknown''"
    by (simp add: match_face_def compare_faces_def face_distance_def np_argmin_def TOLERANCE_def)
  have d0: "draw_face ''alice'' (1, 4, 3, 2) =
      \<lparr>box = (4, 16, 12, 8), box_colour = NEON_GREEN, label = ''ALICE''\<rparr>"
    by (simp add: draw_face_def FRAME_RESIZE_SCALE_def upper_def upper_char_def)
  have d1: "draw_face ''Unknown'' (1, 4, 3, 2) =
      \<lparr>box = (4, 16, 12, 8), box_colour = CRITICAL_RED_BGR, label = ''UNKNOWN''\<rparr>"
    by (simp add: draw_face_def FRAME_RESIZE_SCALE_def upper_def upper_char_def)
  have p0: "build_panel (\<lambda>s. False) ?st ''alice'' =
      \<lparr>status_text = ''ID: ALICE'', status_colour = NEON_CYAN,
       field_lines = [''AGE: N/A'', ''GENDER: N/A'', ''LAST VISIT: N/A''],
       alert_text = ''ALERT: UNKNOWN'', allergy_colour = CRITICAL_RED_BGR,
       history_text = ''No record found.'',
       appointment_lines = [(''NO APPOINTMENT FOUND.'', GRAY_TEXT)]\<rparr>"
    by (simp add: build_panel_def current_details_def current_appointments_def get_def
        default_details_def module_globals_def upper_def upper_char_def)
  have p1: "build_panel (\<lambda>s. False) ?st ''Unknown'' =
      \<lparr>status_text = ''ID: UNKNOWN'', status_colour = CRITICAL_RED_BGR,
       field_lines = [''AGE: N/A'', ''GENDER: N/A'', ''LAST VISIT: N/A''],
       alert_text = ''ALERT: UNKNOWN'', allergy_colour = NEON_GREEN,
       history_text = ''No record found.'',
       appointment_lines = [(''NO APPOINTMENT FOUND.'', GRAY_TEXT)]\<rparr>"
    by (simp add: build_panel_def current_details_def current_appointments_def get_def
        default_details_def module_globals_def upper_def upper_char_def)
  show ?thesis
    by (simp add: process_frame_def m0 m1 d0 d1 p0 p1)
qed

lemma default_panel_texts:
  "upper (get default_details ''allergies'' ''None'') = ''UNKNOWN''"
  "upper (get default_details ''age'' ''N/A'') = ''N/A''"
  "upper (get default_details ''gender'' ''N/A'') = ''N/A''"
  "upper (takeWhile (\<lambda>c. c \<noteq> CHR '' '') (get default_details ''last_visit'' ''N/A'')) = ''N/A''"
  "get default_details ''history'' ''NO DATA LOGGED.'' = ''No record found.''"
  by (simp_all add: get_def default_details_def upper_def upper_char_def)

text \<open>
  C4, amended. A name other than the sentinel that has no patient record gets the
  default attributes of the sentinel, so the three attribute lines, the alert text and
  the history note of its panel are those of an unrecognized face; its identity line
  shows the name in the recognized colour, and its allergy alert is drawn in the
  critical colour where that of an unrecognized face is drawn in green.
\<close>

theorem matched_without_record_gets_defaults:
  assumes "nm \<noteq> ''Unknown''" and "PATIENT_RECORDS st nm = None"
  shows "current_details st nm = default_details \<and>
         current_details st ''Unknown'' = default_details \<and>
         field_lines (build_panel is_today st nm) =
           [''AGE: N/A'', ''GENDER: N/A'', ''LAST VISIT: N/A''] \<and>
         field_lines (build_panel is_today st ''Unknown'') =
           [''AGE: N/A'', ''GENDER: N/A'', ''LAST VISIT: N/A''] \<and>
         alert_text (build_panel is_today st nm) = ''ALERT: UNKNOWN'' \<and>
         alert_text (build_panel is_today st ''Unknown'') = ''ALERT: UNKNOWN'' \<and>
         history_text (build_panel is_today st nm) = ''No record found.'' \<and>
         history_text (build_panel is_today st ''Unknown'') = ''No record found.'' \<and>
         status_text (build_panel is_today st nm) = ''ID: '' @ upper nm \<and>
         status_colour (build_panel is_today st nm) = NEON_CYAN \<and>
         allergy_colour (build_panel is_today st nm) = CRITICAL_RED_BGR \<and>
         allergy_colour (build_panel is_today st ''Unknown'') = NEON_GREEN"
proof -
  have a: "current_details st nm = default_details"
    using assms by (simp add: current_details_def)
  have b: "current_details st ''Unknown'' = default_details"
    by (simp add: current_details_def)
  show ?thesis
    using assms(1) by (simp add: build_panel_def Let_def a b default_panel_texts)
qed

theorem matched_without_record_gets_defaults_witness:
  "current_details ((module_globals Missing Missing Missing Missing)
        \<lparr>KNOWN_ENCODINGS := [[1, 0, 0]], KNOWN_NAMES := [''alice'']\<rparr>) ''alice'' =
     default_details \<and>
   allergy_colour (build_panel (\<lambda>s. False) ((module_globals Missing Missing Missing Missing)
        \<lparr>KNOWN_ENCODINGS := [[1, 0, 0]], KNOWN_NAMES := [''alice'']\<rparr>) ''alice'') =
     CRITICAL_RED_BGR \<and>
   alert_text (build_panel (\<lambda>s. False) ((module_globals Missing Missing Missing Missing)
        \<lparr>KNOWN_ENCODINGS := [[1, 0, 0]], KNOWN_NAMES := [''alice'']\<rparr>) ''alice'') =
     ''ALERT: UNKNOWN''"
proof -
  let ?st = "(module_globals Missing Missing Missing Missing)
        \<lparr>KNOWN_ENCODINGS := [[1, 0, 0]], KNOWN_NAMES := [''alice'']\<rparr>"
  have n: "''alice'' \<noteq> ''Unknown''" by simp
  have r: "PATIENT_RECORDS ?st ''alice'' = None" by (simp add: module_globals_def)
  show ?thesis
    using matched_without_record_gets_defaults [OF n r, of "\<lambda>s. False"] by blast
qed

lemma process_frame_returns:
  assumes len: "length (KNOWN_NAMES st) = length (KNOWN_ENCODINGS st)"
  shows "\<exists>drawn info_panel. process_frame d is_today st faces = Inr (drawn, info_panel)"
proof -
  obtain names where
    "recognise_faces d st faces (''Unknown'', []) =
       Inr (last (''Unknown'' # names),
            [] @ map (\<lambda>i. draw_face (names ! i) (face_loc (faces ! i))) [0..<length faces])"
    using recognise_faces_parallel [OF len] by blast
  then show ?thesis
    by (simp add: process_frame_def)
qed

lemma frame_loop_leaves:
  assumes len: "length (KNOWN_NAMES st) = length (KNOWN_ENCODINGS st)"
  shows "cam (k + n) = NoFrame \<or> keys (k + n) mod 256 = 113 \<Longrightarrow> n < fuel \<Longrightarrow>
         \<exists>shown. frame_loop fuel d is_today st cam keys k tr = Some (Inr (tr @ shown))"
proof (induction n arbitrary: k tr fuel)
  case 0
  then obtain f where fuel: "fuel = Suc f" by (cases fuel) auto
  show ?case
  proof (cases "cam k")
    case NoFrame
    then show ?thesis by (simp add: fuel)
  next
    case (Frame faces)
    obtain drawn info_panel where pf: "process_frame d is_today st faces = Inr (drawn, info_panel)"
      using process_frame_returns [OF len] by blast
    have "keys k mod 256 = 113" using "0.prems"(1) Frame by simp
    then show ?thesis by (simp add: fuel Frame pf)
  qed
next
  case (Suc n)
  then obtain f where fuel: "fuel = Suc f" and f: "n < f" by (cases fuel) auto
  show ?case
  proof (cases "cam k")
    case NoFrame
    then show ?thesis by (simp add: fuel)
  next
    case (Frame faces)
    obtain drawn info_panel where pf: "process_frame d is_today st faces = Inr (drawn, info_panel)"
      using process_frame_returns [OF len] by blast
    show ?thesis
    proof (cases "keys k mod 256 = 113")
      case True
      then show ?thesis by (simp add: fuel Frame pf)
    next
      case False
      have "cam (Suc k + n) = NoFrame \<or> keys (Suc k + n) mod 256 = 113"
        using Suc.prems(1) by simp
      then obtain shown where
        "frame_loop f d is_today st cam keys (Suc k) (tr @ [Imshow drawn info_panel]) =
           Some (Inr ((tr @ [Imshow drawn info_panel]) @ shown))"
        using Suc.IH [OF _ f] by blast
      then show ?thesis using False by (simp add: fuel Frame pf)
    qed
  qed
qed

text \<open>
  C9, as stated, fails. When the capture device does not open, the loop reports the
  error and returns; \<^verbatim>\<open>cap.release()\<close> is not among the events of that path.
\<close>

theorem open_failure_returns_without_release:
  "face_recognition_loop 1 (\<lambda>a b. 0) (\<lambda>s. False) (module_globals Missing Missing Missing Missing)
     \<lparr>isOpened = False, frames = (\<lambda>k. NoFrame)\<rparr> (\<lambda>k. - 1) =
     Some (Returned [VideoCapture, Console CRITICAL, ShowError]) \<and>
   Release \<notin> set [VideoCapture, Console CRITICAL, ShowError]"
  by (simp add: face_recognition_loop_def)

text \<open>
  C9, amended. When the device does not open, the function returns after the error
  notice without a release. When it opens and some pass \<open>n\<close> meets a failed read or the
  key \<^verbatim>\<open>q\<close>, the function returns for every fuel above \<open>n\<close>, and its events end with the
  release of the camera, the closing of the windows, the log line and the return to
  the main menu, in this order. The names are taken parallel to the encodings, so
  that no pass raises.
\<close>

theorem release_on_loop_exit:
  assumes len: "length (KNOWN_NAMES st) = length (KNOWN_ENCODINGS st)"
  shows "(\<not> isOpened cap \<longrightarrow>
            face_recognition_loop fuel d is_today st cap keys =
              Some (Returned [VideoCapture, Console CRITICAL, ShowError])) \<and>
         (isOpened cap \<and> (frames cap n = NoFrame \<or> keys n mod 256 = 113) \<and> n < fuel \<longrightarrow>
            (\<exists>shown. face_recognition_loop fuel d is_today st cap keys =
               Some (Returned ([VideoCapture, Console INFO] @ shown @
                               [Release, DestroyAllWindows, Console INFO, MainMenu]))))"
proof (intro conjI impI)
  assume "\<not> isOpened cap"
  then show "face_recognition_loop fuel d is_today st cap keys =
      Some (Returned [VideoCapture, Console CRITICAL, ShowError])"
    by (simp add: face_recognition_loop_def)
next
  assume a: "isOpened cap \<and> (frames cap n = NoFrame \<or> keys n mod 256 = 113) \<and> n < fuel"
  then have "frames cap (0 + n) = NoFrame \<or> keys (0 + n) mod 256 = 113" by simp
  then obtain shown where
    "frame_loop fuel d is_today st (frames cap) keys 0 [VideoCapture, Console INFO] =
       Some (Inr ([VideoCapture, Console INFO] @ shown))"
    using frame_loop_leaves [OF len] a by blast
  then show "\<exists>shown. face_recognition_loop fuel d is_today st cap keys =
      Some (Returned ([VideoCapture, Console INFO] @ shown @
                      [Release, DestroyAllWindows, Console INFO, MainMenu]))"
    using a by (simp add: face_recognition_loop_def)
qed

theorem release_on_loop_exit_witness:
  "face_recognition_loop 2 (\<lambda>a b. 0) (\<lambda>s. False) (module_globals Missing Missing Missing Missing)
     \<lparr>isOpened = True, frames = (\<lambda>k. Frame [])\<rparr> (\<lambda>k. if k = 1 then 113 else - 1) =
   Some (Returned
     [VideoCapture, Console INFO,
      Imshow [] \<lparr>status_text = ''ID: UNKNOWN'', status_colour = CRITICAL_RED_BGR,
         field_lines = [''AGE: N/A'', ''GENDER: N/A'', ''LAST VISIT: N/A''],
         alert_text = ''ALERT: UNKNOWN'', allergy_colour = NEON_GREEN,
         history_text = ''No record found.'',
         appointment_lines = [(''NO APPOINTMENT FOUND.'', GRAY_TEXT)]\<rparr>,
      Imshow [] \<lparr>status_text = ''ID: UNKNOWN'', status_colour = CRITICAL_RED_BGR,
         field_lines = [''AGE: N/A'', ''GENDER: N/A'', ''LAST VISIT: N/A''],
         alert_text = ''ALERT: UNKNOWN'', allergy_colour = NEON_GREEN,
         history_text = ''No record found.'',
         appointment_lines = [(''NO APPOINTMENT FOUND.'', GRAY_TEXT)]\<rparr>,
      Release, DestroyAllWindows, Console INFO, MainMenu])"
proof -
  let ?st = "module_globals Missing Missing Missing Missing"
  have len: "length (KNOWN_NAMES ?st) = length (KNOWN_ENCODINGS ?st)"
    by (simp add: module_globals_def)
  have p: "build_panel (\<lambda>s. False) ?st ''Unknown'' =
      \<lparr>status_text = ''ID: UNKNOWN'', status_colour = CRITICAL_RED_BGR,
       field_lines = [''AGE: N/A'', ''GENDER: N/A'', ''LAST VISIT: N/A''],
       alert_text = ''ALERT: UNKNOWN'', allergy_colour = NEON_GREEN,
       history_text = ''No record found.'',
       appointment_lines = [(''NO APPOINTMENT FOUND.'', GRAY_TEXT)]\<rparr>"
    by (simp add: build_panel_def current_details_def current_appointments_def get_def
        default_details_def module_globals_def upper_def upper_char_def)
  have two: "(2::nat) = Suc (Suc 0)" by simp
  have run: "frame_loop 2 (\<lambda>a b. 0) (\<lambda>s. False) ?st (\<lambda>k. Frame [])
      (\<lambda>k. if k = 1 then 113 else - 1) 0 [VideoCapture, Console INFO] =
      Some (Inr [VideoCapture, Console INFO,
        Imshow [] (build_panel (\<lambda>s. False) ?st ''Unknown''),
        Imshow [] (build_panel (\<lambda>s. False) ?st ''Unknown'')])"
    unfolding two by (simp add: process_frame_def)
  show ?thesis
    using release_on_loop_exit [OF len, of "\<lparr>isOpened = True, frames = (\<lambda>k. Frame [])\<rparr>"
        2 "\<lambda>a b. 0" "\<lambda>s. False" "\<lambda>k. if k = 1 then 113 else - 1" 1] run p
    by (simp add: face_recognition_loop_def)
qed

text \<open>
  The body of the loop is not guarded: an exception of a pass leaves the function with
  the events so far. Here the names are shorter than the encodings and the lookup of
  the matched name raises.
\<close>

lemma exception_leaves_without_release:
  "face_recognition_loop 1 (\<lambda>a b. 0) (\<lambda>s. False)
     ((module_globals Missing Missing Missing Missing)\<lparr>KNOWN_ENCODINGS := [[1, 0, 0]]\<rparr>)
     \<lparr>isOpened = True, frames = (\<lambda>k. Frame [\<lparr>face_encoding = [1, 0, 0], face_loc = (1, 4, 3, 2)\<rparr>])\<rparr>
     (\<lambda>k. - 1) =
   Some (Raised IndexError [VideoCapture, Console INFO])"
  by (simp add: face_recognition_loop_def process_frame_def match_face_def compare_faces_def
      face_distance_def np_argmin_def TOLERANCE_def module_globals_def)

end
